theory Spec2Isabelle
  imports Main "HOL-Library.Multiset" "HOL-Library.List_Lexorder" "HOL-Library.Word"
begin

section \<open>Payloads and items\<close>

text \<open>
  A JavaScript \<open>Date\<close> is modelled by its time value, the integer number of milliseconds
  since the epoch that \<open>getTime()\<close> returns. An optional field (\<open>undefined\<close> in the
  source) is an \<open>option\<close>. The boolean bookkeeping flags of a payload are only ever
  tested for truthiness, so \<open>undefined\<close> and \<open>false\<close> are both \<open>False\<close>.
\<close>

type_synonym jsdate = int
type_synonym uuid_string = string

datatype PayloadSource =
    RemoteRetrieved | RemoteSaved | LocalSaved | LocalRetrieved | LocalChanged
  | FileImport | RemoteRejected | DecryptedTransient

datatype jsvalue = JUndefined | JBool bool | JString string | JDate jsdate | JInvalidDate

record ContentReference =
  ref_uuid :: uuid_string
  ref_content_type :: string

text \<open>
  The decrypted content object. \<open>appData\<close> maps a domain to that domain's record of
  keys; the keys the source never touches are kept in \<open>other_keys\<close>.
\<close>

record PayloadContent =
  appData :: "(string \<rightharpoonup> (string \<rightharpoonup> jsvalue)) option"
  references :: "ContentReference list option"
  content_protected :: "bool option"
  content_trashed :: "bool option"
  other_keys :: "string \<rightharpoonup> jsvalue"

text \<open>The \<open>content\<close> field: a parsed object, or a ciphertext string.\<close>

datatype content_value = ContentObject PayloadContent | ContentString string

record PurePayload =
  uuid :: uuid_string
  content_type :: string
  content :: "content_value option"
  created_at :: "jsdate option"
  updated_at :: "jsdate option"
  deleted :: bool
  dirty :: bool
  dirtiedDate :: "jsdate option"
  lastSyncBegan :: "jsdate option"
  lastSyncEnd :: "jsdate option"
  errorDecrypting :: bool
  waitingForKey :: bool
  payload_source :: "PayloadSource option"

text \<open>
  \<open>SNItem\<close>: a read-only view over a payload. \<open>isSingleton\<close> is the getter that
  subclasses override (\<open>SNPrivileges\<close> returns true, the base class false).
\<close>

record SNItem =
  payload :: PurePayload
  isSingleton :: bool

datatype js_error = TypeError | Thrown string

section \<open>Conflict strategies\<close>

datatype ConflictStrategies =
    KeepLeft | KeepRight | KeepLeftDuplicateRight | KeepRightDuplicateLeft | KeepLeftMergeRefs

text \<open>
  \<open>SNItem.strategyWhenConflictingWithItem\<close>. \<open>ItemContentsDiffer\<close> lives in
  \<open>@Models/core/functions\<close>, which is not part of the sources at hand; it is taken as
  the parameter \<open>differ\<close>, called with the two items and the additional content keys to
  exclude from the comparison.
\<close>

definition strategyWhenConflictingWithItem ::
  "(SNItem \<Rightarrow> SNItem \<Rightarrow> string list \<Rightarrow> bool) \<Rightarrow> SNItem \<Rightarrow> SNItem \<Rightarrow> ConflictStrategies" where
  "strategyWhenConflictingWithItem differ this item =
     (if errorDecrypting (payload this) then KeepLeftDuplicateRight
      else if isSingleton this then KeepLeft
      else if deleted (payload this) \<or> deleted (payload item) then KeepRight
      else if \<not> differ this item [] then KeepRight
      else if differ this item [''references''] then KeepLeftDuplicateRight
      else KeepLeftMergeRefs)"

text \<open>Concrete payloads and items used to evaluate the definitions.\<close>

definition empty_content :: PayloadContent where
  "empty_content = \<lparr> appData = None, references = None, content_protected = None,
     content_trashed = None, other_keys = Map.empty \<rparr>"

definition sample_payload :: PurePayload where
  "sample_payload = \<lparr> uuid = ''u1'', content_type = ''Note'',
     content = Some (ContentObject empty_content), created_at = Some 1000,
     updated_at = Some 2000, deleted = False, dirty = False, dirtiedDate = None,
     lastSyncBegan = None, lastSyncEnd = None, errorDecrypting = False,
     waitingForKey = False, payload_source = None \<rparr>"

definition sample_item :: SNItem where
  "sample_item = \<lparr> payload = sample_payload, isSingleton = False \<rparr>"

definition errored_item :: SNItem where
  "errored_item = \<lparr> payload = sample_payload \<lparr> content := Some (ContentString ''004:x''),
     errorDecrypting := True \<rparr>, isSingleton = False \<rparr>"

text \<open>
  C2 (as stated): a locally errored item (\<open>errorDecrypting = true\<close>) selects KeepLeft.
  The source tests \<open>errorDecrypting\<close> first and returns KeepLeftDuplicateRight, whatever
  the comparison of the contents says.
\<close>

theorem strategy_errored_counterexample:
  "strategyWhenConflictingWithItem (\<lambda>a b ks. False) errored_item sample_item \<noteq> KeepLeft"
  by (simp add: strategyWhenConflictingWithItem_def errored_item_def)

text \<open>
  C2 (amended): the strategy is decided by the first test that applies, in this order:
  a locally errored item gives KeepLeftDuplicateRight; otherwise a singleton gives KeepLeft;
  otherwise a deleted side gives KeepRight; otherwise equal contents give KeepRight;
  otherwise contents that still differ when \<open>references\<close> is excluded give
  KeepLeftDuplicateRight; otherwise (only the references differ) KeepLeftMergeRefs.
\<close>

theorem strategy_cases:
  "(errorDecrypting (payload this) \<longrightarrow>
      strategyWhenConflictingWithItem differ this item = KeepLeftDuplicateRight) \<and>
   (\<not> errorDecrypting (payload this) \<and> isSingleton this \<longrightarrow>
      strategyWhenConflictingWithItem differ this item = KeepLeft) \<and>
   (\<not> errorDecrypting (payload this) \<and> \<not> isSingleton this \<and>
      (deleted (payload this) \<or> deleted (payload item)) \<longrightarrow>
      strategyWhenConflictingWithItem differ this item = KeepRight) \<and>
   (\<not> errorDecrypting (payload this) \<and> \<not> isSingleton this \<and>
      \<not> deleted (payload this) \<and> \<not> deleted (payload item) \<and> \<not> differ this item [] \<longrightarrow>
      strategyWhenConflictingWithItem differ this item = KeepRight) \<and>
   (\<not> errorDecrypting (payload this) \<and> \<not> isSingleton this \<and>
      \<not> deleted (payload this) \<and> \<not> deleted (payload item) \<and> differ this item [] \<and>
      \<not> differ this item [''references''] \<longrightarrow>
      strategyWhenConflictingWithItem differ this item = KeepLeftMergeRefs) \<and>
   (\<not> errorDecrypting (payload this) \<and> \<not> isSingleton this \<and>
      \<not> deleted (payload this) \<and> \<not> deleted (payload item) \<and> differ this item [] \<and>
      differ this item [''references''] \<longrightarrow>
      strategyWhenConflictingWithItem differ this item = KeepLeftDuplicateRight)"
  by (simp add: strategyWhenConflictingWithItem_def)

theorem strategy_cases_witness:
  "\<not> errorDecrypting (payload sample_item) \<and> \<not> isSingleton sample_item \<and>
   \<not> deleted (payload sample_item) \<and> \<not> deleted (payload sample_item) \<and>
   (\<lambda>a b ks. ks = []) sample_item sample_item [] \<and>
   \<not> (\<lambda>a b ks. ks = []) sample_item sample_item [''references''] \<and>
   strategyWhenConflictingWithItem (\<lambda>a b ks. ks = []) sample_item sample_item = KeepLeftMergeRefs"
  using strategy_cases [of sample_item "\<lambda>a b ks. ks = []" sample_item]
  by (simp add: sample_item_def sample_payload_def)

section \<open>The delta for payloads the server rejected\<close>

text \<open>
  A collection keeps its payloads in the order \<open>all()\<close> lists them. A delta holds the
  base collection, the apply collection and the related collections by source.
\<close>

record ImmutablePayloadCollection =
  col_payloads :: "PurePayload list"
  col_source :: PayloadSource

record PayloadsDelta =
  baseCollection :: "PurePayload list"
  applyCollection :: "PurePayload list"
  relatedCollectionSet :: "PayloadSource \<rightharpoonup> PurePayload list"

text \<open>
  Modelled from the spec: \<open>PayloadsDelta.findRelatedPayload\<close> (the base class in
  \<open>@Payloads/deltas/delta\<close>) is not part of the sources at hand. It is the lookup of
  the locally-held counterpart: the payload with the given uuid in the related collection
  of the given source, \<open>undefined\<close> when there is none.
\<close>

definition findRelatedPayload ::
  "PayloadsDelta \<Rightarrow> uuid_string \<Rightarrow> PayloadSource \<Rightarrow> PurePayload option" where
  "findRelatedPayload d ident src =
     (case relatedCollectionSet d src of
        None \<Rightarrow> None
      | Some c \<Rightarrow> find (\<lambda>p. uuid p = ident) c)"

text \<open>
  \<open>CreateSourcedPayloadFromObject(object, source, override)\<close> picks the fields that
  payloads of the source carry, applies the override and tags the payload with the source.
  The field table (\<open>payloadFieldsForSource\<close>) is not part of the sources at hand and is
  the parameter \<open>pick\<close>; an override object is the record update it performs.
\<close>

definition CreateSourcedPayloadFromObject ::
  "(PayloadSource \<Rightarrow> PurePayload \<Rightarrow> PurePayload) \<Rightarrow> PurePayload \<Rightarrow> PayloadSource \<Rightarrow>
   (PurePayload \<Rightarrow> PurePayload) \<Rightarrow> PurePayload" where
  "CreateSourcedPayloadFromObject pick object src override =
     (override (pick src object)) \<lparr> payload_source := Some src \<rparr>"

text \<open>
  The loop of \<open>DeltaRemoteRejected.resultingCollection\<close>. The clock is read once per
  payload (\<open>new Date()\<close>): \<open>clock k\<close> is its k-th reading during the call.
\<close>

fun rejected_results ::
  "(PayloadSource \<Rightarrow> PurePayload \<Rightarrow> PurePayload) \<Rightarrow> (nat \<Rightarrow> jsdate) \<Rightarrow> PayloadsDelta \<Rightarrow>
   nat \<Rightarrow> PurePayload list \<Rightarrow> js_error + PurePayload list" where
  "rejected_results pick clock d k [] = Inr []"
| "rejected_results pick clock d k (p # ps) =
     (case findRelatedPayload d (uuid p) DecryptedTransient of
        None \<Rightarrow> Inl (Thrown ''Unable to find decrypted counterpart for rejected payload.'')
      | Some decrypted \<Rightarrow>
          (case rejected_results pick clock d (Suc k) ps of
             Inl e \<Rightarrow> Inl e
           | Inr results \<Rightarrow>
               Inr (CreateSourcedPayloadFromObject pick decrypted RemoteRejected
                      (\<lambda>q. q \<lparr> lastSyncEnd := Some (clock k), dirty := False \<rparr>) # results)))"

definition resultingCollection ::
  "(PayloadSource \<Rightarrow> PurePayload \<Rightarrow> PurePayload) \<Rightarrow> (nat \<Rightarrow> jsdate) \<Rightarrow> PayloadsDelta \<Rightarrow>
   js_error + ImmutablePayloadCollection" where
  "resultingCollection pick clock d =
     (case rejected_results pick clock d 0 (applyCollection d) of
        Inl e \<Rightarrow> Inl e
      | Inr results \<Rightarrow> Inr \<lparr> col_payloads = results, col_source = RemoteRejected \<rparr>)"

definition rejected_delta :: PayloadsDelta where
  "rejected_delta = \<lparr> baseCollection = [sample_payload],
     applyCollection = [sample_payload \<lparr> content := None \<rparr>],
     relatedCollectionSet = [DecryptedTransient \<mapsto> [sample_payload \<lparr> dirty := True \<rparr>]] \<rparr>"

lemma rejected_results_missing:
  "\<exists>p \<in> set ps. findRelatedPayload d (uuid p) DecryptedTransient = None \<Longrightarrow>
   rejected_results pick clock d k ps =
     Inl (Thrown ''Unable to find decrypted counterpart for rejected payload.'')"
proof (induction ps arbitrary: k)
  case Nil
  then show ?case by simp
next
  case (Cons p ps)
  show ?case
  proof (cases "findRelatedPayload d (uuid p) DecryptedTransient")
    case None
    then show ?thesis by simp
  next
    case (Some decrypted)
    with Cons.prems have "\<exists>q \<in> set ps. findRelatedPayload d (uuid q) DecryptedTransient = None"
      by auto
    then have "rejected_results pick clock d (Suc k) ps =
        Inl (Thrown ''Unable to find decrypted counterpart for rejected payload.'')"
      by (rule Cons.IH)
    with Some show ?thesis by simp
  qed
qed

lemma rejected_results_found:
  "\<forall>p \<in> set ps. findRelatedPayload d (uuid p) DecryptedTransient \<noteq> None \<Longrightarrow>
   \<exists>rs. rejected_results pick clock d k ps = Inr rs \<and> length rs = length ps \<and>
     (\<forall>i < length ps. \<exists>decrypted.
        findRelatedPayload d (uuid (ps ! i)) DecryptedTransient = Some decrypted \<and>
        rs ! i = CreateSourcedPayloadFromObject pick decrypted RemoteRejected
                   (\<lambda>q. q \<lparr> lastSyncEnd := Some (clock (k + i)), dirty := False \<rparr>))"
proof (induction ps arbitrary: k)
  case Nil
  then show ?case by simp
next
  case (Cons p ps)
  from Cons.prems obtain decrypted where
    dec: "findRelatedPayload d (uuid p) DecryptedTransient = Some decrypted"
    by auto
  from Cons.prems have "\<forall>q \<in> set ps. findRelatedPayload d (uuid q) DecryptedTransient \<noteq> None"
    by simp
  from Cons.IH [OF this, of "Suc k"] obtain rs where
    rs: "rejected_results pick clock d (Suc k) ps = Inr rs" "length rs = length ps"
      "\<forall>i < length ps. \<exists>decrypted.
        findRelatedPayload d (uuid (ps ! i)) DecryptedTransient = Some decrypted \<and>
        rs ! i = CreateSourcedPayloadFromObject pick decrypted RemoteRejected
                   (\<lambda>q. q \<lparr> lastSyncEnd := Some (clock (Suc k + i)), dirty := False \<rparr>)"
    by blast
  let ?r = "CreateSourcedPayloadFromObject pick decrypted RemoteRejected
              (\<lambda>q. q \<lparr> lastSyncEnd := Some (clock k), dirty := False \<rparr>)"
  have run: "rejected_results pick clock d k (p # ps) = Inr (?r # rs)"
    using dec rs(1) by simp
  have each: "\<exists>decrypted'.
        findRelatedPayload d (uuid ((p # ps) ! i)) DecryptedTransient = Some decrypted' \<and>
        (?r # rs) ! i = CreateSourcedPayloadFromObject pick decrypted' RemoteRejected
                   (\<lambda>q. q \<lparr> lastSyncEnd := Some (clock (k + i)), dirty := False \<rparr>)"
    if "i < length (p # ps)" for i
  proof (cases i)
    case 0
    then show ?thesis using dec by simp
  next
    case (Suc j)
    with that have "j < length ps" by simp
    with rs(3) Suc show ?thesis by simp
  qed
  show ?case
    using run rs(2) each by simp
qed

text \<open>
  C6: when every payload of the apply collection has a counterpart in the related
  collection of source DecryptedTransient, the delta returns a collection of source
  RemoteRejected holding, for the i-th rejected payload, its counterpart re-sourced as
  RemoteRejected with \<open>dirty = false\<close> and \<open>lastSyncEnd\<close> set to the clock's reading for
  that payload; when some payload has no counterpart, the delta throws the bare string
  and returns no collection.
\<close>

theorem remote_rejected_resultingCollection:
  "((\<forall>p \<in> set (applyCollection d). findRelatedPayload d (uuid p) DecryptedTransient \<noteq> None) \<longrightarrow>
      (\<exists>c. resultingCollection pick clock d = Inr c \<and> col_source c = RemoteRejected \<and>
         length (col_payloads c) = length (applyCollection d) \<and>
         (\<forall>i < length (applyCollection d). \<exists>decrypted.
            findRelatedPayload d (uuid (applyCollection d ! i)) DecryptedTransient = Some decrypted \<and>
            col_payloads c ! i = CreateSourcedPayloadFromObject pick decrypted RemoteRejected
                (\<lambda>q. q \<lparr> lastSyncEnd := Some (clock i), dirty := False \<rparr>) \<and>
            \<not> dirty (col_payloads c ! i) \<and>
            lastSyncEnd (col_payloads c ! i) = Some (clock i) \<and>
            payload_source (col_payloads c ! i) = Some RemoteRejected))) \<and>
   ((\<exists>p \<in> set (applyCollection d). findRelatedPayload d (uuid p) DecryptedTransient = None) \<longrightarrow>
      resultingCollection pick clock d =
        Inl (Thrown ''Unable to find decrypted counterpart for rejected payload.''))"
proof (intro conjI impI)
  assume "\<forall>p \<in> set (applyCollection d). findRelatedPayload d (uuid p) DecryptedTransient \<noteq> None"
  from rejected_results_found [OF this, of pick clock 0] obtain rs where
    rs: "rejected_results pick clock d 0 (applyCollection d) = Inr rs"
      "length rs = length (applyCollection d)"
      "\<forall>i < length (applyCollection d). \<exists>decrypted.
        findRelatedPayload d (uuid (applyCollection d ! i)) DecryptedTransient = Some decrypted \<and>
        rs ! i = CreateSourcedPayloadFromObject pick decrypted RemoteRejected
                   (\<lambda>q. q \<lparr> lastSyncEnd := Some (clock i), dirty := False \<rparr>)"
    by auto
  let ?c = "\<lparr> col_payloads = rs, col_source = RemoteRejected \<rparr>"
  have "resultingCollection pick clock d = Inr ?c"
    using rs(1) by (simp add: resultingCollection_def)
  moreover have "\<forall>i < length (applyCollection d). \<exists>decrypted.
            findRelatedPayload d (uuid (applyCollection d ! i)) DecryptedTransient = Some decrypted \<and>
            col_payloads ?c ! i = CreateSourcedPayloadFromObject pick decrypted RemoteRejected
                (\<lambda>q. q \<lparr> lastSyncEnd := Some (clock i), dirty := False \<rparr>) \<and>
            \<not> dirty (col_payloads ?c ! i) \<and>
            lastSyncEnd (col_payloads ?c ! i) = Some (clock i) \<and>
            payload_source (col_payloads ?c ! i) = Some RemoteRejected"
  proof (intro allI impI)
    fix i assume "i < length (applyCollection d)"
    with rs(3) obtain decrypted where
      "findRelatedPayload d (uuid (applyCollection d ! i)) DecryptedTransient = Some decrypted"
      "rs ! i = CreateSourcedPayloadFromObject pick decrypted RemoteRejected
                   (\<lambda>q. q \<lparr> lastSyncEnd := Some (clock i), dirty := False \<rparr>)"
      by blast
    then show "\<exists>decrypted.
            findRelatedPayload d (uuid (applyCollection d ! i)) DecryptedTransient = Some decrypted \<and>
            col_payloads ?c ! i = CreateSourcedPayloadFromObject pick decrypted RemoteRejected
                (\<lambda>q. q \<lparr> lastSyncEnd := Some (clock i), dirty := False \<rparr>) \<and>
            \<not> dirty (col_payloads ?c ! i) \<and>
            lastSyncEnd (col_payloads ?c ! i) = Some (clock i) \<and>
            payload_source (col_payloads ?c ! i) = Some RemoteRejected"
      by (simp add: CreateSourcedPayloadFromObject_def)
  qed
  ultimately show "\<exists>c. resultingCollection pick clock d = Inr c \<and> col_source c = RemoteRejected \<and>
         length (col_payloads c) = length (applyCollection d) \<and>
         (\<forall>i < length (applyCollection d). \<exists>decrypted.
            findRelatedPayload d (uuid (applyCollection d ! i)) DecryptedTransient = Some decrypted \<and>
            col_payloads c ! i = CreateSourcedPayloadFromObject pick decrypted RemoteRejected
                (\<lambda>q. q \<lparr> lastSyncEnd := Some (clock i), dirty := False \<rparr>) \<and>
            \<not> dirty (col_payloads c ! i) \<and>
            lastSyncEnd (col_payloads c ! i) = Some (clock i) \<and>
            payload_source (col_payloads c ! i) = Some RemoteRejected)"
    using rs(2) by (intro exI [of _ ?c]) simp
next
  assume "\<exists>p \<in> set (applyCollection d). findRelatedPayload d (uuid p) DecryptedTransient = None"
  then show "resultingCollection pick clock d =
        Inl (Thrown ''Unable to find decrypted counterpart for rejected payload.'')"
    by (simp add: resultingCollection_def rejected_results_missing)
qed

theorem remote_rejected_resultingCollection_witness:
  "findRelatedPayload rejected_delta (uuid (sample_payload \<lparr> content := None \<rparr>)) DecryptedTransient
     = Some (sample_payload \<lparr> dirty := True \<rparr>) \<and>
   resultingCollection (\<lambda>s p. p) (\<lambda>k. 5000 + int k) rejected_delta =
     Inr \<lparr> col_payloads = [sample_payload \<lparr> lastSyncEnd := Some 5000, dirty := False,
                               payload_source := Some RemoteRejected \<rparr>],
           col_source = RemoteRejected \<rparr> \<and>
   resultingCollection (\<lambda>s p. p) (\<lambda>k. 5000 + int k)
       (rejected_delta \<lparr> relatedCollectionSet := Map.empty \<rparr>) =
     Inl (Thrown ''Unable to find decrypted counterpart for rejected payload.'')"
  using remote_rejected_resultingCollection
    [of rejected_delta "\<lambda>s p. p" "\<lambda>k. 5000 + int k"]
    remote_rejected_resultingCollection
    [of "rejected_delta \<lparr> relatedCollectionSet := Map.empty \<rparr>" "\<lambda>s p. p" "\<lambda>k. 5000 + int k"]
  by (simp add: rejected_delta_def findRelatedPayload_def resultingCollection_def
      CreateSourcedPayloadFromObject_def sample_payload_def)

section \<open>The session manager: register and sign in\<close>

text \<open>
  The collaborators of \<open>SNSessionManager\<close> (API service, protocol service, alert
  service, message table) are not part of the sources at hand. The messages are an
  enumeration; a response carries the fields the session manager reads; the state records
  the user, the session, the value stored under \<open>StorageKey.User\<close>, and logs of the
  requests sent to the server and of the confirmation dialogs shown.
\<close>

definition MINIMUM_PASSWORD_LENGTH :: nat where
  "MINIMUM_PASSWORD_LENGTH = 8"

datatype message =
    InsufficientPasswordMessage nat
  | API_MESSAGE_FALLBACK_LOGIN_FAIL
  | UNSUPPORTED_PROTOCOL_VERSION
  | EXPIRED_PROTOCOL_VERSION
  | INVALID_PASSWORD_COST
  | OUTDATED_PROTOCOL_VERSION
  | UNSUPPORTED_KEY_DERIVATION
  | StrictSignInFailed string string
  | ServerError string

record User =
  user_uuid :: string
  user_email :: "string option"

record KeyParams =
  kp_version :: string
  kp_identifier :: string
  pw_cost :: nat

record SNRootKey =
  serverPassword :: string
  masterKey :: string
  keyParams :: KeyParams

record HttpResponse =
  resp_error :: "message option"
  resp_mfa_key :: "string option"
  resp_user :: "User option"
  resp_token :: "string option"
  resp_key_params :: "KeyParams option"

record SessionManagerResponse =
  response :: HttpResponse
  rootKey :: "SNRootKey option"

datatype Session = JwtSession string | TokenSession HttpResponse

datatype api_request =
    GetAccountKeyParams string
  | Register string string KeyParams
  | SignIn string string "string option" "string option"

record SessionManager =
  sm_user :: "User option"
  sm_session :: "Session option"
  sm_stored_user :: "User option"
  sm_requests :: "api_request list"
  sm_confirms :: "message list"

text \<open>
  The environment of a call: what the server answers to a request, what the protocol
  service computes, and what the person at the keyboard answers (\<open>confirmed\<close> to the
  confirmation dialog, \<open>mfa_answers\<close> to the successive two-factor prompts, \<open>None\<close>
  or no answer left meaning that the prompt was dismissed).
\<close>

record auth_env =
  server :: "api_request \<Rightarrow> HttpResponse"
  createRootKey :: "string \<Rightarrow> string \<Rightarrow> SNRootKey"
  computeRootKey :: "string \<Rightarrow> KeyParams \<Rightarrow> SNRootKey"
  expandedCopy :: "SNRootKey \<Rightarrow> KeyParams option \<Rightarrow> SNRootKey"
  KeyParamsFromApiResponse :: "HttpResponse \<Rightarrow> KeyParams option"
  isVersionNewerThanLibraryVersion :: "string \<Rightarrow> bool"
  costMinimumForVersion :: "string \<Rightarrow> nat"
  platformSupportsKeyDerivation :: "KeyParams \<Rightarrow> bool"
  getLatestVersion :: string
  leftVersionGreaterThanOrEqualToRight :: "string \<Rightarrow> string \<Rightarrow> bool"
  confirmed :: bool
  mfa_answers :: "string option list"

text \<open>
  Modelled from the spec: \<open>SNApiService.createErrorResponse\<close> is not part of the sources
  at hand; it builds a response that carries the error message and nothing else.
\<close>

definition createErrorResponse :: "message \<Rightarrow> HttpResponse" where
  "createErrorResponse m = \<lparr> resp_error = Some m, resp_mfa_key = None, resp_user = None,
     resp_token = None, resp_key_params = None \<rparr>"

text \<open>
  Modelled from the spec: \<open>SNProtocolService.supportedVersions\<close> and
  \<open>isProtocolVersionOutdated\<close> are not part of the sources at hand. The library reads
  the four protocol versions 001 to 004, and 001 and 002 are the outdated ones.
\<close>

definition supportedVersions :: "string list" where
  "supportedVersions = [''001'', ''002'', ''003'', ''004'']"

definition isProtocolVersionOutdated :: "string \<Rightarrow> bool" where
  "isProtocolVersionOutdated v = (v = ''001'' \<or> v = ''002'')"

definition handleSuccessAuthResponse :: "HttpResponse \<Rightarrow> SessionManager \<Rightarrow> SessionManager" where
  "handleSuccessAuthResponse r st =
     st \<lparr> sm_user := resp_user r, sm_stored_user := resp_user r,
          sm_session := (case resp_token r of
                           Some t \<Rightarrow> if t \<noteq> [] then Some (JwtSession t)
                                     else Some (TokenSession r)
                         | None \<Rightarrow> Some (TokenSession r)) \<rparr>"

definition register ::
  "auth_env \<Rightarrow> string \<Rightarrow> string \<Rightarrow> SessionManager \<Rightarrow> SessionManagerResponse \<times> SessionManager" where
  "register env email password st =
     (if length password < MINIMUM_PASSWORD_LENGTH then
        (\<lparr> response = createErrorResponse (InsufficientPasswordMessage MINIMUM_PASSWORD_LENGTH),
           rootKey = None \<rparr>, st)
      else
        let rk = createRootKey env email password;
            request = Register email (serverPassword rk) (keyParams rk);
            registerResponse = server env request;
            st1 = st \<lparr> sm_requests := sm_requests st @ [request] \<rparr>;
            st2 = (if resp_error registerResponse = None
                   then handleSuccessAuthResponse registerResponse st1 else st1)
        in (\<lparr> response = registerResponse, rootKey = Some rk \<rparr>, st2))"

text \<open>
  \<open>bypassChecksAndSignInWithServerPassword\<close> calls itself again after each two-factor
  prompt that was answered; the recursion is on the answers still to come.
\<close>

fun bypassChecksAndSignInWithServerPassword ::
  "auth_env \<Rightarrow> string option list \<Rightarrow> string \<Rightarrow> string \<Rightarrow> string option \<Rightarrow> string option \<Rightarrow>
   SessionManager \<Rightarrow> HttpResponse \<times> SessionManager" where
  "bypassChecksAndSignInWithServerPassword env answers email pw mfaKeyPath mfaCode st =
     (let request = SignIn email pw mfaKeyPath mfaCode;
          signInResponse = server env request;
          st1 = st \<lparr> sm_requests := sm_requests st @ [request] \<rparr>
      in if resp_error signInResponse = None then
           (signInResponse, handleSuccessAuthResponse signInResponse st1)
         else
           (case resp_mfa_key signInResponse of
              None \<Rightarrow> (signInResponse, st1)
            | Some key \<Rightarrow>
                (case answers of
                   [] \<Rightarrow> (signInResponse, st1)
                 | None # rest \<Rightarrow> (signInResponse, st1)
                 | Some code # rest \<Rightarrow>
                     if code = [] then (signInResponse, st1)
                     else bypassChecksAndSignInWithServerPassword env rest email pw
                            (Some key) (Some code) st1)))"

declare bypassChecksAndSignInWithServerPassword.simps [simp del]

text \<open>
  \<open>signIn\<close>, in two parts: \<open>signIn_authenticate\<close> is the tail of the source function
  from the test of \<open>platformSupportsKeyDerivation\<close> on, which both the branch for an
  outdated version (after the confirmation) and the branch for a current version reach.
\<close>

definition signIn_authenticate ::
  "auth_env \<Rightarrow> string \<Rightarrow> string \<Rightarrow> bool \<Rightarrow> string option \<Rightarrow> KeyParams \<Rightarrow> SessionManager \<Rightarrow>
   SessionManagerResponse \<times> SessionManager" where
  "signIn_authenticate env email password strict minAllowedVersion kp st =
     (if \<not> platformSupportsKeyDerivation env kp then
        (\<lparr> response = createErrorResponse UNSUPPORTED_KEY_DERIVATION, rootKey = None \<rparr>, st)
      else
        let minAllowed = (if strict then Some (getLatestVersion env) else minAllowedVersion);
            rejected = (case minAllowed of
                          None \<Rightarrow> None
                        | Some m \<Rightarrow>
                            if leftVersionGreaterThanOrEqualToRight env (kp_version kp) m
                            then None else Some m)
        in (case rejected of
              Some m \<Rightarrow>
                (\<lparr> response = createErrorResponse (StrictSignInFailed (kp_version kp) m),
                   rootKey = None \<rparr>, st)
            | None \<Rightarrow>
                let rk = computeRootKey env password kp;
                    (signInResponse, st') =
                      bypassChecksAndSignInWithServerPassword env (mfa_answers env)
                        email (serverPassword rk) None None st
                in (\<lparr> response = signInResponse,
                      rootKey = Some (expandedCopy env rk (resp_key_params signInResponse)) \<rparr>,
                    st')))"

definition signIn ::
  "auth_env \<Rightarrow> string \<Rightarrow> string \<Rightarrow> bool \<Rightarrow> string option \<Rightarrow> SessionManager \<Rightarrow>
   SessionManagerResponse \<times> SessionManager" where
  "signIn env email password strict minAllowedVersion st =
     (let paramsResponse = server env (GetAccountKeyParams email);
          st1 = st \<lparr> sm_requests := sm_requests st @ [GetAccountKeyParams email] \<rparr>
      in if resp_error paramsResponse \<noteq> None then
           (\<lparr> response = paramsResponse, rootKey = None \<rparr>, st1)
         else
           (case KeyParamsFromApiResponse env paramsResponse of
              None \<Rightarrow>
                (\<lparr> response = createErrorResponse API_MESSAGE_FALLBACK_LOGIN_FAIL,
                   rootKey = None \<rparr>, st1)
            | Some kp \<Rightarrow>
                if kp_version kp = [] then
                  (\<lparr> response = createErrorResponse API_MESSAGE_FALLBACK_LOGIN_FAIL,
                     rootKey = None \<rparr>, st1)
                else if kp_version kp \<notin> set supportedVersions then
                  (if isVersionNewerThanLibraryVersion env (kp_version kp) then
                     (\<lparr> response = createErrorResponse UNSUPPORTED_PROTOCOL_VERSION,
                        rootKey = None \<rparr>, st1)
                   else
                     (\<lparr> response = createErrorResponse EXPIRED_PROTOCOL_VERSION,
                        rootKey = None \<rparr>, st1))
                else if isProtocolVersionOutdated (kp_version kp) then
                  (let minimum = costMinimumForVersion env (kp_version kp)
                   in if pw_cost kp < minimum then
                        (\<lparr> response = createErrorResponse INVALID_PASSWORD_COST,
                           rootKey = None \<rparr>, st1)
                      else
                        let st2 = st1 \<lparr> sm_confirms :=
                                          sm_confirms st1 @ [OUTDATED_PROTOCOL_VERSION] \<rparr>
                        in if \<not> confirmed env then
                             (\<lparr> response = createErrorResponse API_MESSAGE_FALLBACK_LOGIN_FAIL,
                                rootKey = None \<rparr>, st2)
                           else signIn_authenticate env email password strict
                                  minAllowedVersion kp st2)
                else signIn_authenticate env email password strict minAllowedVersion kp st1))"

definition sample_session_manager :: SessionManager where
  "sample_session_manager = \<lparr> sm_user = None, sm_session = None, sm_stored_user = None,
     sm_requests = [], sm_confirms = [] \<rparr>"

definition ok_response :: HttpResponse where
  "ok_response = \<lparr> resp_error = None, resp_mfa_key = None,
     resp_user = Some \<lparr> user_uuid = ''user-1'', user_email = Some ''a@b.c'' \<rparr>,
     resp_token = Some ''jwt'', resp_key_params = None \<rparr>"

definition sample_env :: "nat \<Rightarrow> bool \<Rightarrow> auth_env" where
  "sample_env cost answer = \<lparr>
     server = (\<lambda>r. ok_response),
     createRootKey = (\<lambda>e p. \<lparr> serverPassword = ''sp'', masterKey = ''mk'',
        keyParams = \<lparr> kp_version = ''004'', kp_identifier = e, pw_cost = 0 \<rparr> \<rparr>),
     computeRootKey = (\<lambda>p kp. \<lparr> serverPassword = ''sp'', masterKey = ''mk'', keyParams = kp \<rparr>),
     expandedCopy = (\<lambda>rk kp. rk),
     KeyParamsFromApiResponse =
       (\<lambda>r. Some \<lparr> kp_version = ''002'', kp_identifier = ''a@b.c'', pw_cost = cost \<rparr>),
     isVersionNewerThanLibraryVersion = (\<lambda>v. False),
     costMinimumForVersion = (\<lambda>v. 3000),
     platformSupportsKeyDerivation = (\<lambda>kp. True),
     getLatestVersion = ''004'',
     leftVersionGreaterThanOrEqualToRight = (\<lambda>l r. True),
     confirmed = answer,
     mfa_answers = [] \<rparr>"

text \<open>
  C10: for every email and every password shorter than 8 characters, \<open>register\<close>
  returns an error response (the insufficient-password message) and leaves the state as it
  was: no request is added to the log of requests sent to the server, and user, stored
  user and session are unchanged.
\<close>

theorem register_short_password:
  "length password < 8 \<Longrightarrow>
   register env email password st =
     (\<lparr> response = createErrorResponse (InsufficientPasswordMessage 8), rootKey = None \<rparr>, st)
   \<and> resp_error (response (fst (register env email password st))) \<noteq> None
   \<and> sm_requests (snd (register env email password st)) = sm_requests st
   \<and> sm_user (snd (register env email password st)) = sm_user st
   \<and> sm_session (snd (register env email password st)) = sm_session st"
  by (simp add: register_def MINIMUM_PASSWORD_LENGTH_def createErrorResponse_def)

theorem register_short_password_witness:
  "length ''1234567'' < (8::nat) \<and>
   register (sample_env 0 True) ''a@b.c'' ''1234567'' sample_session_manager =
     (\<lparr> response = createErrorResponse (InsufficientPasswordMessage 8), rootKey = None \<rparr>,
      sample_session_manager)"
  using register_short_password [of "''1234567''" "sample_env 0 True" "''a@b.c''" sample_session_manager]
  by simp

lemma bypass_confirms:
  "sm_confirms (snd (bypassChecksAndSignInWithServerPassword env answers email pw k c st)) = sm_confirms st"
  apply (induction env answers email pw k c st rule: bypassChecksAndSignInWithServerPassword.induct)
  apply (subst bypassChecksAndSignInWithServerPassword.simps)
  apply (auto simp: Let_def handleSuccessAuthResponse_def split: option.splits list.splits)
  done

lemma authenticate_confirms:
  "sm_confirms (snd (signIn_authenticate env email password strict minAllowedVersion kp st)) =
   sm_confirms st"
proof -
  have *: "sm_confirms st' = sm_confirms st"
    if "bypassChecksAndSignInWithServerPassword env answers email pw k c st = (r, st')"
    for r st' answers pw k c
    using bypass_confirms [of env answers email pw k c st] that by simp
  show ?thesis
    by (auto simp: signIn_authenticate_def Let_def split: option.splits prod.splits dest: *)
qed

text \<open>
  C9: for every sign-in against an account whose key params were fetched and carry an
  outdated version (001 or 002): if the legacy cost \<open>pw_cost\<close> is below the minimum for
  that version, \<open>signIn\<close> returns the invalid-cost error response, and the only request
  sent is the one for the key params (no authentication is attempted, nothing is asked);
  otherwise the outdated-protocol confirmation is shown, and then a decline returns an
  error response with no further request, and only a confirmation lets the sign-in go on
  to the key-derivation checks and the authentication request.
\<close>

theorem signIn_outdated_version:
  assumes params: "resp_error (server env (GetAccountKeyParams email)) = None"
    and kp: "KeyParamsFromApiResponse env (server env (GetAccountKeyParams email)) = Some kp"
    and outdated: "kp_version kp = ''001'' \<or> kp_version kp = ''002''"
  shows "(pw_cost kp < costMinimumForVersion env (kp_version kp) \<longrightarrow>
            signIn env email password strict minAllowedVersion st =
              (\<lparr> response = createErrorResponse INVALID_PASSWORD_COST, rootKey = None \<rparr>,
               st \<lparr> sm_requests := sm_requests st @ [GetAccountKeyParams email] \<rparr>)) \<and>
         (\<not> pw_cost kp < costMinimumForVersion env (kp_version kp) \<longrightarrow>
            sm_confirms (snd (signIn env email password strict minAllowedVersion st)) =
              sm_confirms st @ [OUTDATED_PROTOCOL_VERSION] \<and>
            (\<not> confirmed env \<longrightarrow>
               signIn env email password strict minAllowedVersion st =
                 (\<lparr> response = createErrorResponse API_MESSAGE_FALLBACK_LOGIN_FAIL, rootKey = None \<rparr>,
                  st \<lparr> sm_requests := sm_requests st @ [GetAccountKeyParams email],
                       sm_confirms := sm_confirms st @ [OUTDATED_PROTOCOL_VERSION] \<rparr>)) \<and>
            (confirmed env \<longrightarrow>
               signIn env email password strict minAllowedVersion st =
                 signIn_authenticate env email password strict minAllowedVersion kp
                   (st \<lparr> sm_requests := sm_requests st @ [GetAccountKeyParams email],
                        sm_confirms := sm_confirms st @ [OUTDATED_PROTOCOL_VERSION] \<rparr>)))"
proof -
  from outdated have sup: "kp_version kp \<in> set supportedVersions"
    and nonempty: "kp_version kp \<noteq> []"
    and out: "isProtocolVersionOutdated (kp_version kp)"
    by (auto simp: supportedVersions_def isProtocolVersionOutdated_def)
  show ?thesis
  proof (intro conjI impI)
    assume "pw_cost kp < costMinimumForVersion env (kp_version kp)"
    then show "signIn env email password strict minAllowedVersion st =
              (\<lparr> response = createErrorResponse INVALID_PASSWORD_COST, rootKey = None \<rparr>,
               st \<lparr> sm_requests := sm_requests st @ [GetAccountKeyParams email] \<rparr>)"
      using params kp sup nonempty out by (simp add: signIn_def)
  next
    assume "\<not> pw_cost kp < costMinimumForVersion env (kp_version kp)"
    then show "sm_confirms (snd (signIn env email password strict minAllowedVersion st)) =
              sm_confirms st @ [OUTDATED_PROTOCOL_VERSION]"
      using params kp sup nonempty out by (simp add: signIn_def Let_def authenticate_confirms)
  next
    assume "\<not> pw_cost kp < costMinimumForVersion env (kp_version kp)" "\<not> confirmed env"
    then show "signIn env email password strict minAllowedVersion st =
                 (\<lparr> response = createErrorResponse API_MESSAGE_FALLBACK_LOGIN_FAIL, rootKey = None \<rparr>,
                  st \<lparr> sm_requests := sm_requests st @ [GetAccountKeyParams email],
                       sm_confirms := sm_confirms st @ [OUTDATED_PROTOCOL_VERSION] \<rparr>)"
      using params kp sup nonempty out by (simp add: signIn_def)
  next
    assume "\<not> pw_cost kp < costMinimumForVersion env (kp_version kp)" "confirmed env"
    then show "signIn env email password strict minAllowedVersion st =
                 signIn_authenticate env email password strict minAllowedVersion kp
                   (st \<lparr> sm_requests := sm_requests st @ [GetAccountKeyParams email],
                        sm_confirms := sm_confirms st @ [OUTDATED_PROTOCOL_VERSION] \<rparr>)"
      using params kp sup nonempty out by (simp add: signIn_def)
  qed
qed

theorem signIn_outdated_version_witness:
  "resp_error (server (sample_env 3000 False) (GetAccountKeyParams ''a@b.c'')) = None \<and>
   signIn (sample_env 2999 True) ''a@b.c'' ''password'' False None sample_session_manager =
     (\<lparr> response = createErrorResponse INVALID_PASSWORD_COST, rootKey = None \<rparr>,
      sample_session_manager \<lparr> sm_requests := [GetAccountKeyParams ''a@b.c''] \<rparr>) \<and>
   signIn (sample_env 3000 False) ''a@b.c'' ''password'' False None sample_session_manager =
     (\<lparr> response = createErrorResponse API_MESSAGE_FALLBACK_LOGIN_FAIL, rootKey = None \<rparr>,
      sample_session_manager \<lparr> sm_requests := [GetAccountKeyParams ''a@b.c''],
        sm_confirms := [OUTDATED_PROTOCOL_VERSION] \<rparr>) \<and>
   sm_requests (snd (signIn (sample_env 3000 True) ''a@b.c'' ''password'' False None
      sample_session_manager)) =
     [GetAccountKeyParams ''a@b.c'', SignIn ''a@b.c'' ''sp'' None None]"
  using signIn_outdated_version [of "sample_env 2999 True" "''a@b.c''"
      "\<lparr> kp_version = ''002'', kp_identifier = ''a@b.c'', pw_cost = 2999 \<rparr>"
      "''password''" False None sample_session_manager]
    signIn_outdated_version [of "sample_env 3000 False" "''a@b.c''"
      "\<lparr> kp_version = ''002'', kp_identifier = ''a@b.c'', pw_cost = 3000 \<rparr>"
      "''password''" False None sample_session_manager]
    signIn_outdated_version [of "sample_env 3000 True" "''a@b.c''"
      "\<lparr> kp_version = ''002'', kp_identifier = ''a@b.c'', pw_cost = 3000 \<rparr>"
      "''password''" False None sample_session_manager]
  by (simp add: sample_env_def ok_response_def sample_session_manager_def
      signIn_authenticate_def handleSuccessAuthResponse_def
      bypassChecksAndSignInWithServerPassword.simps)

section \<open>Array.prototype.sort\<close>

text \<open>
  \<open>Array.prototype.sort\<close> with a comparator: a stable sort in which \<open>a\<close> comes
  before \<open>b\<close> when the comparator's value is negative, and elements that compare as
  equal keep their order. It is modelled as the stable insertion sort; a comparator value
  NaN counts as \<open>+0\<close>, as the language specification says.
\<close>

fun js_insert :: "('a \<Rightarrow> 'a \<Rightarrow> int) \<Rightarrow> 'a \<Rightarrow> 'a list \<Rightarrow> 'a list" where
  "js_insert cmp x [] = [x]"
| "js_insert cmp x (y # ys) = (if cmp x y \<le> 0 then x # y # ys else y # js_insert cmp x ys)"

definition js_sort :: "('a \<Rightarrow> 'a \<Rightarrow> int) \<Rightarrow> 'a list \<Rightarrow> 'a list" where
  "js_sort cmp xs = foldr (js_insert cmp) xs []"

lemma js_insert_insort_key:
  "(\<And>a b. cmp a b \<le> 0 \<longleftrightarrow> f a \<le> f b) \<Longrightarrow> js_insert cmp x ys = insort_key f x ys"
  by (induction ys) auto

lemma js_sort_sort_key:
  assumes "\<And>a b. cmp a b \<le> 0 \<longleftrightarrow> f a \<le> f b"
  shows "js_sort cmp xs = sort_key f xs"
  unfolding js_sort_def sort_key_def
  using js_insert_insort_key [of cmp f, OF assms] by (induction xs) auto

section \<open>The migration service\<close>

text \<open>
  Modelled from the spec: \<open>compareSemVersions\<close> and \<open>isRightVersionGreaterThanLeft\<close>
  of \<open>@Lib/version\<close> are not part of the sources at hand. A version string is a
  semantic version: its dot-separated decimal components are compared numerically, the
  first difference deciding. \<open>compareSemVersions\<close> is -1, 0 or 1, and the right version
  is greater than the left one when it is -1.
\<close>

fun splitOn :: "char \<Rightarrow> string \<Rightarrow> string list" where
  "splitOn c [] = [[]]"
| "splitOn c (x # xs) =
     (if x = c then [] # splitOn c xs
      else (case splitOn c xs of [] \<Rightarrow> [[x]] | p # ps \<Rightarrow> (x # p) # ps))"

definition decimal :: "string \<Rightarrow> nat" where
  "decimal s = foldl (\<lambda>n c. 10 * n + (of_char c - 48)) 0 s"

definition semverParts :: "string \<Rightarrow> nat list" where
  "semverParts v = map decimal (splitOn CHR ''.'' v)"

definition compareSemVersions :: "string \<Rightarrow> string \<Rightarrow> int" where
  "compareSemVersions l r =
     (if semverParts l < semverParts r then - 1
      else if semverParts l = semverParts r then 0 else 1)"

definition isRightVersionGreaterThanLeft :: "string \<Rightarrow> string \<Rightarrow> bool" where
  "isRightVersionGreaterThanLeft l r = (compareSemVersions l r = - 1)"


record MigrationClass =
  migration_name :: string
  version :: string

text \<open>
  \<open>SNMigrationService.getRequiredMigrations\<close>: the registered migration classes
  (\<open>migrationImports\<close>, in the order of the module's exports) are sorted by version, and
  the loop collects those whose version is not the stored one and is greater than it.
\<close>

fun requiredLoop :: "string \<Rightarrow> MigrationClass list \<Rightarrow> MigrationClass list" where
  "requiredLoop storedVersion [] = []"
| "requiredLoop storedVersion (migrationClass # rest) =
     (if version migrationClass = storedVersion then requiredLoop storedVersion rest
      else if isRightVersionGreaterThanLeft storedVersion (version migrationClass)
        then migrationClass # requiredLoop storedVersion rest
      else requiredLoop storedVersion rest)"

definition getRequiredMigrations :: "MigrationClass list \<Rightarrow> string \<Rightarrow> MigrationClass list" where
  "getRequiredMigrations migrationImports storedVersion =
     requiredLoop storedVersion
       (js_sort (\<lambda>a b. compareSemVersions (version a) (version b)) migrationImports)"

text \<open>
  Modelled from the spec: \<open>namespacedKey\<close> and \<open>RawStorageKey.SnjsVersion\<close> of
  \<open>@Lib/storage_keys\<close> are not part of the sources at hand. The persisted keys are
  namespaced by the application identifier, and the version lives under \<open>snjs_version\<close>.
\<close>

definition namespacedKey :: "string \<Rightarrow> string \<Rightarrow> string" where
  "namespacedKey ident key = ident @ ''-'' @ key"

definition SnjsVersionKey :: string where
  "SnjsVersionKey = ''snjs_version''"

text \<open>
  The service reads the raw storage of the device interface. \<open>baseMigration\<close> is
  assigned by \<open>initialize\<close>; before that it is \<open>undefined\<close>, and calling a method on
  it is a TypeError. What \<open>BaseMigration.needsKeychainRepair\<close> answers is a field.
\<close>

record BaseMigration =
  needsKeychainRepair :: bool

record SNMigrationService =
  service_identifier :: string
  deviceInterface :: "string \<rightharpoonup> string"
  baseMigration :: "BaseMigration option"

definition getStoredSnjsVersion :: "SNMigrationService \<Rightarrow> js_error + string" where
  "getStoredSnjsVersion svc =
     (case deviceInterface svc (namespacedKey (service_identifier svc) SnjsVersionKey) of
        None \<Rightarrow> Inl (Thrown ''Snjs version missing from storage, run base migration.'')
      | Some v \<Rightarrow>
          if v = [] then Inl (Thrown ''Snjs version missing from storage, run base migration.'')
          else Inr v)"

definition hasPendingMigrations :: "MigrationClass list \<Rightarrow> SNMigrationService \<Rightarrow> js_error + bool" where
  "hasPendingMigrations migrationImports svc =
     (case getStoredSnjsVersion svc of
        Inl e \<Rightarrow> Inl e
      | Inr storedVersion \<Rightarrow>
          let requiredMigrations = getRequiredMigrations migrationImports storedVersion
          in if length requiredMigrations > 0 then Inr True
             else (case baseMigration svc of
                     None \<Rightarrow> Inl TypeError
                   | Some b \<Rightarrow> Inr (needsKeychainRepair b)))"

lemma compare_le_iff: "compareSemVersions l r \<le> 0 \<longleftrightarrow> semverParts l \<le> semverParts r"
  by (auto simp: compareSemVersions_def)

lemma greater_iff: "isRightVersionGreaterThanLeft l r \<longleftrightarrow> semverParts l < semverParts r"
  by (auto simp: isRightVersionGreaterThanLeft_def compareSemVersions_def)

lemma requiredLoop_filter:
  "requiredLoop stored ms = filter (\<lambda>m. isRightVersionGreaterThanLeft stored (version m)) ms"
  by (induction ms) (auto simp: greater_iff)

lemma sorted_migrations:
  "js_sort (\<lambda>a b. compareSemVersions (version a) (version b)) ms =
   sort_key (\<lambda>m. semverParts (version m)) ms"
  by (rule js_sort_sort_key) (simp add: compare_le_iff)

lemma getRequiredMigrations_filter_sort:
  "getRequiredMigrations ms stored =
   filter (\<lambda>m. isRightVersionGreaterThanLeft stored (version m))
     (sort_key (\<lambda>m. semverParts (version m)) ms)"
  by (simp add: getRequiredMigrations_def requiredLoop_filter sorted_migrations)

lemma required_mset:
  "mset (getRequiredMigrations ms stored) =
   filter_mset (\<lambda>m. isRightVersionGreaterThanLeft stored (version m)) (mset ms)"
  by (simp add: getRequiredMigrations_filter_sort)

lemma required_sorted:
  "sorted_wrt (\<lambda>a b. compareSemVersions (version a) (version b) \<le> 0)
     (getRequiredMigrations ms stored)"
proof -
  have "sorted (map (\<lambda>m. semverParts (version m)) (getRequiredMigrations ms stored))"
    unfolding getRequiredMigrations_filter_sort by (rule sorted_filter) simp
  then show ?thesis
    by (simp add: sorted_map compare_le_iff)
qed

text \<open>
  C8: for every stored version string, \<open>getRequiredMigrations\<close> returns exactly the
  registered migration classes whose version is strictly greater than the stored version
  (each as often as it is registered), in ascending order of \<open>compareSemVersions\<close>; and
  when the version is in storage and the base migration exists, \<open>hasPendingMigrations\<close>
  returns true if and only if that list is non-empty or the base migration reports that
  the keychain needs repair.
\<close>

theorem required_migrations:
  "mset (getRequiredMigrations ms stored) =
     filter_mset (\<lambda>m. isRightVersionGreaterThanLeft stored (version m)) (mset ms) \<and>
   sorted_wrt (\<lambda>a b. compareSemVersions (version a) (version b) \<le> 0)
     (getRequiredMigrations ms stored) \<and>
   (getStoredSnjsVersion svc = Inr stored \<and> baseMigration svc = Some b \<longrightarrow>
      hasPendingMigrations ms svc =
        Inr (getRequiredMigrations ms stored \<noteq> [] \<or> needsKeychainRepair b))"
  using required_mset [of ms stored] required_sorted [of ms stored]
  by (auto simp: hasPendingMigrations_def Let_def)

definition sample_migrations :: "MigrationClass list" where
  "sample_migrations =
     [\<lparr> migration_name = ''Migration2_7_0'', version = ''2.7.0'' \<rparr>,
      \<lparr> migration_name = ''Migration2_0_15'', version = ''2.0.15'' \<rparr>,
      \<lparr> migration_name = ''Migration2_0_0'', version = ''2.0.0'' \<rparr>]"

definition sample_service :: "string \<Rightarrow> bool \<Rightarrow> SNMigrationService" where
  "sample_service v repair = \<lparr> service_identifier = ''app'',
     deviceInterface = [''app-snjs_version'' \<mapsto> v],
     baseMigration = Some \<lparr> needsKeychainRepair = repair \<rparr> \<rparr>"

lemma sample_required:
  "getRequiredMigrations sample_migrations ''2.0.9'' =
     [\<lparr> migration_name = ''Migration2_0_15'', version = ''2.0.15'' \<rparr>,
      \<lparr> migration_name = ''Migration2_7_0'', version = ''2.7.0'' \<rparr>]"
  by (simp add: getRequiredMigrations_def sample_migrations_def js_sort_def
      compareSemVersions_def isRightVersionGreaterThanLeft_def semverParts_def decimal_def)

theorem required_migrations_witness:
  "getStoredSnjsVersion (sample_service ''2.0.9'' False) = Inr ''2.0.9'' \<and>
   baseMigration (sample_service ''2.0.9'' False) = Some \<lparr> needsKeychainRepair = False \<rparr> \<and>
   getRequiredMigrations sample_migrations ''2.0.9'' =
     [\<lparr> migration_name = ''Migration2_0_15'', version = ''2.0.15'' \<rparr>,
      \<lparr> migration_name = ''Migration2_7_0'', version = ''2.7.0'' \<rparr>] \<and>
   hasPendingMigrations sample_migrations (sample_service ''2.0.9'' False) = Inr True \<and>
   hasPendingMigrations sample_migrations (sample_service ''2.7.0'' False) = Inr False \<and>
   hasPendingMigrations sample_migrations (sample_service ''2.7.0'' True) = Inr True"
proof -
  have st: "getStoredSnjsVersion (sample_service v r) = Inr v" if "v \<noteq> []" for v r
    using that by (simp add: getStoredSnjsVersion_def sample_service_def namespacedKey_def
        SnjsVersionKey_def)
  have none: "getRequiredMigrations sample_migrations ''2.7.0'' = []"
    by (simp add: getRequiredMigrations_def sample_migrations_def js_sort_def
      compareSemVersions_def isRightVersionGreaterThanLeft_def semverParts_def decimal_def)
  show ?thesis
    using required_migrations [of sample_migrations "''2.0.9''" "sample_service ''2.0.9'' False"
        "\<lparr> needsKeychainRepair = False \<rparr>"]
      required_migrations [of sample_migrations "''2.7.0''" "sample_service ''2.7.0'' False"
        "\<lparr> needsKeychainRepair = False \<rparr>"]
      required_migrations [of sample_migrations "''2.7.0''" "sample_service ''2.7.0'' True"
        "\<lparr> needsKeychainRepair = True \<rparr>"]
      st sample_required none
    by (simp add: sample_service_def)
qed

section \<open>The data integrity hash\<close>

text \<open>
  \<open>Array.prototype.join\<close> turns each element into a string: a number into its decimal
  representation (the time values of dates are integers, far below the magnitude where
  the exponent notation starts), \<open>undefined\<close> into the empty string.
\<close>

definition digitChar :: "nat \<Rightarrow> char" where
  "digitChar d = ''0123456789'' ! d"

fun digits :: "nat \<Rightarrow> string" where
  "digits n = (if n < 10 then [digitChar n] else digits (n div 10) @ [digitChar (n mod 10)])"

declare digits.simps [simp del]

definition numberToString :: "int \<Rightarrow> string" where
  "numberToString i = (if i < 0 then CHR ''-'' # digits (nat (- i)) else digits (nat i))"

fun js_join :: "string \<Rightarrow> string list \<Rightarrow> string" where
  "js_join sep [] = []"
| "js_join sep [x] = x"
| "js_join sep (x # y # ys) = x @ sep @ js_join sep (y # ys)"

definition joinElement :: "int option \<Rightarrow> string" where
  "joinElement v = (case v of None \<Rightarrow> [] | Some n \<Rightarrow> numberToString n)"

text \<open>
  Modelled from the spec: the getter \<open>nonDeletedItems\<close> of the model manager is not part
  of the sources at hand; it lists the items of the collection that are not deleted.
\<close>

definition nonDeletedItems :: "SNItem list \<Rightarrow> SNItem list" where
  "nonDeletedItems items = filter (\<lambda>item. \<not> deleted (payload item)) items"

text \<open>\<open>SNItem.updatedAtTimestamp\<close>: \<open>this.updated_at?.getTime()\<close>, in milliseconds.\<close>

definition updatedAtTimestamp :: "SNItem \<Rightarrow> int option" where
  "updatedAtTimestamp item = updated_at (payload item)"

text \<open>
  The comparator \<open>b.updated_at - a.updated_at\<close>. With a missing date the difference is
  NaN, which the sort takes for \<open>+0\<close>.
\<close>

definition compareUpdatedAt :: "SNItem \<Rightarrow> SNItem \<Rightarrow> int" where
  "compareUpdatedAt a b =
     (case (updated_at (payload b), updated_at (payload a)) of
        (Some tb, Some ta) \<Rightarrow> tb - ta
      | _ \<Rightarrow> 0)"

text \<open>
  \<open>computeDataIntegrityHash\<close>: the string handed to the digest, and the digest of it.
  The digest function is the injected crypto library's \<open>sha256\<close>, a parameter. Nothing
  in the \<open>try\<close> block throws on a collection of items, so the \<open>catch\<close> branch that
  returns \<open>null\<close> is not reached.
\<close>

definition integrityString :: "SNItem list \<Rightarrow> string" where
  "integrityString items =
     (let sorted_items = js_sort compareUpdatedAt (nonDeletedItems items);
          dates = map updatedAtTimestamp sorted_items
      in js_join '','' (map joinElement dates))"

definition computeDataIntegrityHash :: "(string \<Rightarrow> string) \<Rightarrow> SNItem list \<Rightarrow> string" where
  "computeDataIntegrityHash sha256 items = sha256 (integrityString items)"

text \<open>The timestamps (milliseconds) of the non-deleted items that have one.\<close>

definition timestamps :: "SNItem list \<Rightarrow> int list" where
  "timestamps items = List.map_filter updatedAtTimestamp (nonDeletedItems items)"

definition item_at :: "string \<Rightarrow> int \<Rightarrow> bool \<Rightarrow> SNItem" where
  "item_at u t del =
     \<lparr> payload = sample_payload \<lparr> uuid := u, updated_at := Some t, deleted := del \<rparr>,
       isSingleton = False \<rparr>"

lemma js_insert_insort_key_on:
  "(\<And>b. b \<in> set ys \<Longrightarrow> cmp x b \<le> 0 \<longleftrightarrow> f x \<le> f b) \<Longrightarrow>
   js_insert cmp x ys = insort_key f x ys"
  by (induction ys) auto

lemma js_sort_sort_key_on:
  assumes "\<And>a b. a \<in> set xs \<Longrightarrow> b \<in> set xs \<Longrightarrow> cmp a b \<le> 0 \<longleftrightarrow> f a \<le> f b"
  shows "js_sort cmp xs = sort_key f xs"
  using assms
proof (induction xs)
  case Nil
  then show ?case by (simp add: js_sort_def)
next
  case (Cons x xs)
  have IH: "js_sort cmp xs = sort_key f xs"
    by (rule Cons.IH) (simp add: Cons.prems)
  have "js_sort cmp (x # xs) = js_insert cmp x (sort_key f xs)"
    using IH by (simp add: js_sort_def)
  also have "\<dots> = insort_key f x (sort_key f xs)"
    by (rule js_insert_insort_key_on) (simp add: Cons.prems)
  finally show ?case by simp
qed

lemma map_sort_key: "map f (sort_key f xs) = sort (map f xs)"
  by (rule properties_for_sort [symmetric]) simp_all

lemma sorted_uminus_rev: "sorted (ys :: int list) \<Longrightarrow> sorted (map uminus (rev ys))"
  by (induction ys) (auto simp: sorted_append)

lemma uminus_sort: "map uminus (sort (map uminus (zs :: int list))) = rev (sort zs)"
proof -
  have "sort (map uminus zs) = map uminus (rev (sort zs))"
    by (rule properties_for_sort) (simp_all add: sorted_uminus_rev)
  then show ?thesis by (simp add: comp_def)
qed

lemma map_filter_all_Some:
  "\<forall>x \<in> set xs. f x \<noteq> None \<Longrightarrow>
   List.map_filter f xs = map (\<lambda>x. case f x of Some t \<Rightarrow> t | None \<Rightarrow> d) xs"
  by (induction xs) (auto simp: List.map_filter_simps)

text \<open>
  C1 (amended): when every non-deleted item has an \<open>updated_at\<close>, the hash is the digest
  of the comma-joined \<open>updated_at\<close> timestamps of the non-deleted items in descending
  order, each written as the decimal number of milliseconds since the epoch
  (\<open>getTime()\<close>), not of microseconds.
\<close>

theorem integrity_hash_milliseconds:
  assumes "\<forall>item \<in> set items. \<not> deleted (payload item) \<longrightarrow> updated_at (payload item) \<noteq> None"
  shows "computeDataIntegrityHash sha256 items =
           sha256 (js_join '','' (map numberToString (rev (sort (timestamps items)))))"
proof -
  let ?xs = "nonDeletedItems items"
  let ?ts = "\<lambda>item. case updatedAtTimestamp item of Some t \<Rightarrow> t | None \<Rightarrow> 0"
  let ?ys = "sort_key (\<lambda>x. - ?ts x) ?xs"
  have def: "\<forall>x \<in> set ?xs. updatedAtTimestamp x \<noteq> None"
    using assms by (simp add: nonDeletedItems_def updatedAtTimestamp_def)
  have srt: "js_sort compareUpdatedAt ?xs = ?ys"
  proof (rule js_sort_sort_key_on)
    fix a b assume "a \<in> set ?xs" "b \<in> set ?xs"
    with def obtain ta tb where "updatedAtTimestamp a = Some ta" "updatedAtTimestamp b = Some tb"
      by blast
    then show "compareUpdatedAt a b \<le> 0 \<longleftrightarrow> - ?ts a \<le> - ?ts b"
      by (simp add: compareUpdatedAt_def updatedAtTimestamp_def)
  qed
  have ts: "timestamps items = map ?ts ?xs"
    unfolding timestamps_def by (rule map_filter_all_Some [OF def])
  have "set ?ys = set ?xs" by simp
  with def have "\<forall>x \<in> set ?ys. updatedAtTimestamp x \<noteq> None" by blast
  then have "map joinElement (map updatedAtTimestamp ?ys) = map numberToString (map ?ts ?ys)"
    by (auto simp: joinElement_def split: option.splits)
  also have "map ?ts ?ys = map uminus (map (\<lambda>x. - ?ts x) ?ys)"
    by (simp add: comp_def)
  also have "\<dots> = map uminus (sort (map (\<lambda>x. - ?ts x) ?xs))"
    by (simp only: map_sort_key)
  also have "map (\<lambda>x. - ?ts x) ?xs = map uminus (map ?ts ?xs)"
    by (simp add: comp_def)
  also have "map uminus (sort (map uminus (map ?ts ?xs))) = rev (sort (timestamps items))"
    by (simp only: uminus_sort ts)
  finally have "map joinElement (map updatedAtTimestamp ?ys) =
      map numberToString (rev (sort (timestamps items)))" .
  then show ?thesis
    unfolding computeDataIntegrityHash_def integrityString_def Let_def srt by (simp only:)
qed

subsection \<open>The digest\<close>

unbundle bit_operations_syntax

text \<open>
  Modelled from the spec: the digest is SHA-256. \<open>crypto.sha256\<close> belongs to the
  injected crypto library, which is not part of the sources at hand; to evaluate the hash
  on concrete items it is taken to be the standard function (FIPS 180-4) on the bytes of
  the string (the strings hashed here are ASCII), written as a lowercase hexadecimal
  string. The round constants and the initial hash value are written in decimal.
\<close>

definition K256 :: "32 word list" where
  "K256 = [
   1116352408, 1899447441, 3049323471, 3921009573, 961987163, 1508970993, 2453635748, 2870763221,
   3624381080, 310598401, 607225278, 1426881987, 1925078388, 2162078206, 2614888103, 3248222580,
   3835390401, 4022224774, 264347078, 604807628, 770255983, 1249150122, 1555081692, 1996064986,
   2554220882, 2821834349, 2952996808, 3210313671, 3336571891, 3584528711, 113926993, 338241895,
   666307205, 773529912, 1294757372, 1396182291, 1695183700, 1986661051, 2177026350, 2456956037,
   2730485921, 2820302411, 3259730800, 3345764771, 3516065817, 3600352804, 4094571909, 275423344,
   430227734, 506948616, 659060556, 883997877, 958139571, 1322822218, 1537002063, 1747873779,
   1955562222, 2024104815, 2227730452, 2361852424, 2428436474, 2756734187, 3204031479, 3329325298]"

definition H0 :: "32 word list" where
  "H0 = [1779033703, 3144134277, 1013904242, 2773480762, 1359893119, 2600822924, 528734635, 1541459225]"

definition rotr :: "nat \<Rightarrow> 32 word \<Rightarrow> 32 word" where
  "rotr n w = (drop_bit n w) OR (push_bit (32 - n) w)"

definition ssig0 :: "32 word \<Rightarrow> 32 word" where
  "ssig0 x = rotr 7 x XOR rotr 18 x XOR drop_bit 3 x"
definition ssig1 :: "32 word \<Rightarrow> 32 word" where
  "ssig1 x = rotr 17 x XOR rotr 19 x XOR drop_bit 10 x"
definition bsig0 :: "32 word \<Rightarrow> 32 word" where
  "bsig0 x = rotr 2 x XOR rotr 13 x XOR rotr 22 x"
definition bsig1 :: "32 word \<Rightarrow> 32 word" where
  "bsig1 x = rotr 6 x XOR rotr 11 x XOR rotr 25 x"
definition ch :: "32 word \<Rightarrow> 32 word \<Rightarrow> 32 word \<Rightarrow> 32 word" where
  "ch x y z = (x AND y) XOR (NOT x AND z)"
definition maj :: "32 word \<Rightarrow> 32 word \<Rightarrow> 32 word \<Rightarrow> 32 word" where
  "maj x y z = (x AND y) XOR (x AND z) XOR (y AND z)"

text \<open>The message schedule, most recent word first: \<open>ws ! 1\<close> is W[t-2].\<close>
fun schedule :: "nat \<Rightarrow> 32 word list \<Rightarrow> 32 word list" where
  "schedule 0 ws = ws"
| "schedule (Suc n) ws =
     schedule n ((ssig1 (ws ! 1) + ws ! 6 + ssig0 (ws ! 14) + ws ! 15) # ws)"

fun rounds :: "32 word list \<Rightarrow> 32 word list \<Rightarrow> 32 word list \<Rightarrow> 32 word list" where
  "rounds [a, b, c, d, e, f, g, h] (k # ks) (w # ws) =
     (let t1 = h + bsig1 e + ch e f g + k + w;
          t2 = bsig0 a + maj a b c
      in rounds [t1 + t2, a, b, c, d + t1, e, f, g] ks ws)"
| "rounds st ks ws = st"

definition compress :: "32 word list \<Rightarrow> 32 word list \<Rightarrow> 32 word list" where
  "compress hs block = map2 (+) hs (rounds hs K256 (rev (schedule 48 (rev block))))"

fun be32 :: "8 word list \<Rightarrow> 32 word list" where
  "be32 (a # b # c # d # rest) =
     (push_bit 24 (ucast a) OR push_bit 16 (ucast b) OR push_bit 8 (ucast c) OR ucast d) # be32 rest"
| "be32 _ = []"

definition pad :: "8 word list \<Rightarrow> 8 word list" where
  "pad m = (let l = length m; k = (119 - l mod 64) mod 64;
                len = (of_nat (8 * l) :: 64 word)
            in m @ [128] @ replicate k 0 @
               map (\<lambda>i. ucast (drop_bit (8 * (7 - i)) len)) [0..<8])"

fun blocks :: "nat \<Rightarrow> 32 word list \<Rightarrow> 32 word list \<Rightarrow> 32 word list" where
  "blocks 0 hs ws = hs"
| "blocks (Suc n) hs ws = blocks n (compress hs (take 16 ws)) (drop 16 ws)"

definition sha256_words :: "8 word list \<Rightarrow> 32 word list" where
  "sha256_words m = (let ws = be32 (pad m) in blocks (length ws div 16) H0 ws)"

definition bytes_of :: "string \<Rightarrow> 8 word list" where
  "bytes_of s = map (\<lambda>c. of_nat (of_char c)) s"

definition hexChar :: "nat \<Rightarrow> char" where
  "hexChar d = ''0123456789abcdef'' ! d"

definition hex32 :: "32 word \<Rightarrow> string" where
  "hex32 w = map (\<lambda>i. hexChar (unat (drop_bit (4 * (7 - i)) w AND 15))) [0..<8]"

definition sha256 :: "string \<Rightarrow> string" where
  "sha256 s = concat (map hex32 (sha256_words (bytes_of s)))"


subsection \<open>Milliseconds, not microseconds\<close>

text \<open>
  The string of the claim as stated: the same timestamps in the same order, each as the
  decimal number of microseconds.
\<close>

definition microsecondString :: "jsdate \<Rightarrow> string" where
  "microsecondString t = numberToString (t * 1000)"

definition claimedIntegrityString :: "SNItem list \<Rightarrow> string" where
  "claimedIntegrityString items =
     js_join '','' (map microsecondString (rev (sort (timestamps items))))"

lemma digest_milliseconds:
  "sha256 ''1617004805233'' = ''f762f0455715d50c6e0813a16f971fc2695c2e000a8fd02907ee440e9a8bbdc6''"
  by code_simp

lemma digest_microseconds:
  "sha256 ''1617004805233000'' = ''33b4a32c911eef2cd886ca61d8e8af598bd3ba222865583e4dee718ce8718be4''"
  by code_simp

lemma integrityString_single:
  "integrityString [item_at ''a'' 1617004805233 False] = ''1617004805233''"
  by (simp add: integrityString_def nonDeletedItems_def js_sort_def item_at_def
      updatedAtTimestamp_def joinElement_def numberToString_def digits.simps digitChar_def)

lemma claimedIntegrityString_single:
  "claimedIntegrityString [item_at ''a'' 1617004805233 False] = ''1617004805233000''"
  by (simp add: claimedIntegrityString_def timestamps_def nonDeletedItems_def item_at_def
      updatedAtTimestamp_def List.map_filter_simps microsecondString_def numberToString_def
      digits.simps digitChar_def)

text \<open>
  C1 (as stated): the hash is the digest of the microsecond strings. For one item updated
  at 2021-03-29T08:00:05.233Z the source hashes \<open>1617004805233\<close>, the milliseconds
  that \<open>getTime()\<close> returns, and not \<open>1617004805233000\<close>.
\<close>

theorem integrity_hash_microseconds_counterexample:
  "computeDataIntegrityHash sha256 [item_at ''a'' 1617004805233 False] =
     ''f762f0455715d50c6e0813a16f971fc2695c2e000a8fd02907ee440e9a8bbdc6'' \<and>
   sha256 (claimedIntegrityString [item_at ''a'' 1617004805233 False]) =
     ''33b4a32c911eef2cd886ca61d8e8af598bd3ba222865583e4dee718ce8718be4'' \<and>
   computeDataIntegrityHash sha256 [item_at ''a'' 1617004805233 False] \<noteq>
     sha256 (claimedIntegrityString [item_at ''a'' 1617004805233 False])"
  by (simp add: computeDataIntegrityHash_def integrityString_single claimedIntegrityString_single
      digest_milliseconds digest_microseconds)

theorem integrity_hash_milliseconds_witness:
  "computeDataIntegrityHash sha256
     [item_at ''a'' 1617004805233 False, item_at ''b'' 1617004805999 False,
      item_at ''c'' 5 True, item_at ''d'' 0 False] =
   sha256 ''1617004805999,1617004805233,0''"
proof -
  let ?items = "[item_at ''a'' 1617004805233 False, item_at ''b'' 1617004805999 False,
      item_at ''c'' 5 True, item_at ''d'' 0 False]"
  have h: "\<forall>item \<in> set ?items. \<not> deleted (payload item) \<longrightarrow> updated_at (payload item) \<noteq> None"
    by (simp add: item_at_def)
  have ts: "timestamps ?items = [1617004805233, 1617004805999, 0]"
    by (simp add: timestamps_def nonDeletedItems_def item_at_def updatedAtTimestamp_def
        List.map_filter_simps)
  have str: "js_join '','' (map numberToString (rev (sort [1617004805233, 1617004805999, 0]))) =
      ''1617004805999,1617004805233,0''"
    by (simp add: numberToString_def digits.simps digitChar_def)
  from integrity_hash_milliseconds [OF h, of sha256] show ?thesis
    by (simp only: ts str)
qed

section \<open>The sync manager\<close>

text \<open>
  \<open>SNSyncManager\<close> (sync_manager.js). In this version of the engine the items of the
  model manager expose the payload fields directly and \<open>CreateMaxPayloadFromAnyObject\<close>
  picks all of them, so an item of the collection is its payload here.

  The state holds the flags the manager tests, the model manager's collection
  (\<open>master\<close>), the payloads persisted by the storage manager (\<open>database\<close>), the two
  queues (the resolve queue by its length, the spawn queue by the options of its
  entries), the sync requests the manager starts without awaiting them
  (\<open>spawnedSyncs\<close>), and the events notified.
\<close>

datatype SyncEvent =
    FullSyncCompleted | SingleSyncCompleted | InitialSyncCompleted | MajorDataChange
  | SyncError string | InvalidSession

datatype EncryptionIntent = IntentSync | IntentLocalStorageDecrypted

record SyncManager =
  locked :: bool
  syncInProgress :: bool
  databaseLoaded :: bool
  completedInitialSync :: bool
  lastPreSyncSaveDate :: "jsdate option"
  lastSyncDate :: "jsdate option"
  lastError :: "string option"
  master :: "PurePayload list"
  database :: "uuid_string \<rightharpoonup> PurePayload"
  resolveQueue :: nat
  spawnQueue :: "bool option list"
  spawnedSyncs :: "(nat option \<times> bool option) list"
  events :: "SyncEvent list"

definition TIMING_STRATEGY_RESOLVE_ON_NEXT :: nat where "TIMING_STRATEGY_RESOLVE_ON_NEXT = 1"
definition TIMING_STRATEGY_FORCE_SPAWN_NEW :: nat where "TIMING_STRATEGY_FORCE_SPAWN_NEW = 2"
definition SYNC_MODE_DEFAULT :: nat where "SYNC_MODE_DEFAULT = 1"
definition SYNC_MODE_INITIAL :: nat where "SYNC_MODE_INITIAL = 2"
definition DEFAULT_MAJOR_CHANGE_THRESHOLD :: nat where "DEFAULT_MAJOR_CHANGE_THRESHOLD = 15"

text \<open>
  What a call of \<open>sync\<close> takes from outside: whether a session exists, the clock
  readings, the protocol service's encryption of a payload under an intent, and the run
  of the sync operation. The operation classes are not part of the sources at hand:
  \<open>run_operation\<close> stands for \<open>await operation.run()\<close> together with the response
  handlers it triggers, and returns the operation's \<open>numberOfItemsInvolved\<close> with the
  state it leaves.
\<close>

record sync_env =
  online :: bool
  now_presave :: jsdate
  now_begin :: jsdate
  now_end :: jsdate
  encrypt :: "EncryptionIntent \<Rightarrow> PurePayload \<Rightarrow> PurePayload"
  run_operation :: "bool \<Rightarrow> PurePayload list option \<Rightarrow> bool option \<Rightarrow> SyncManager \<Rightarrow> nat \<times> SyncManager"

record sync_options =
  timingStrategy :: "nat option"
  mode :: "nat option"
  checkIntegrity :: "bool option"

text \<open>
  How a call of \<open>sync\<close> ends: at once when syncing is locked; with a promise parked in
  the resolve queue or in the spawn queue; or after the operation has run, with the
  payloads that were handed to the operation and whether the call ends by calling
  \<open>sync\<close> again (\<open>return this.sync()\<close>).
\<close>

datatype sync_outcome =
    SyncLocked
  | QueuedResolveOnNext
  | QueuedForceSpawnNew
  | RoundCompleted "PurePayload list option" bool

text \<open>\<open>SNItem.neverSynced\<close>: \<open>!this.updated_at || this.updated_at.getTime() === 0\<close>.\<close>

definition neverSynced :: "PurePayload \<Rightarrow> bool" where
  "neverSynced item = (case updated_at item of None \<Rightarrow> True | Some t \<Rightarrow> t = 0)"

text \<open>
  Modelled from the spec: \<open>subtractFromArray\<close> of \<open>@Lib/utils\<close> is not part of the
  sources at hand; it removes from the array the elements of the second array (the
  partition of the pre-flight).
\<close>

definition subtractFromArray :: "'a list \<Rightarrow> 'a list \<Rightarrow> 'a list" where
  "subtractFromArray array subtract = filter (\<lambda>x. x \<notin> set subtract) array"

text \<open>
  Modelled from the spec: \<open>mapPayloadsToLocalItems\<close> of the model manager and
  \<open>savePayloads\<close> of the storage manager are not part of the sources at hand. Mapping
  inserts or overlays each payload into the collection by uuid; saving writes each payload
  into the payload table keyed by uuid.
\<close>

definition mapPayload :: "PurePayload \<Rightarrow> PurePayload list \<Rightarrow> PurePayload list" where
  "mapPayload p ms =
     (if \<exists>m \<in> set ms. uuid m = uuid p
      then map (\<lambda>m. if uuid m = uuid p then p else m) ms
      else ms @ [p])"

definition mapPayloadsToLocalItems :: "PurePayload list \<Rightarrow> SyncManager \<Rightarrow> SyncManager" where
  "mapPayloadsToLocalItems payloads st = st \<lparr> master := foldl (\<lambda>ms p. mapPayload p ms) (master st) payloads \<rparr>"

definition savePayloads :: "PurePayload list \<Rightarrow> SyncManager \<Rightarrow> SyncManager" where
  "savePayloads payloads st =
     st \<lparr> database := foldl (\<lambda>db p. db(uuid p \<mapsto> p)) (database st) payloads \<rparr>"

definition persistPayloads :: "PurePayload list \<Rightarrow> SyncManager \<Rightarrow> SyncManager" where
  "persistPayloads decryptedPayloads st =
     (if length decryptedPayloads = 0 then st else savePayloads decryptedPayloads st)"

text \<open>
  Modelled from the spec: \<open>getDirtyItems\<close> of the model manager is not part of the
  sources at hand; the pre-flight collects the items with \<open>dirty = true\<close>.
\<close>

definition itemsNeedingSync :: "SyncManager \<Rightarrow> PurePayload list" where
  "itemsNeedingSync st = filter dirty (master st)"

definition popPayloadsNeedingPreSyncSave ::
  "sync_env \<Rightarrow> PurePayload list \<Rightarrow> SyncManager \<Rightarrow> PurePayload list \<times> SyncManager" where
  "popPayloadsNeedingPreSyncSave env from st =
     (case lastPreSyncSaveDate st of
        None \<Rightarrow> (from, st)
      | Some lastPreSyncSave \<Rightarrow>
          (filter (\<lambda>candidate. case dirtiedDate candidate of
                                  None \<Rightarrow> True
                                | Some d \<Rightarrow> d > lastPreSyncSave) from,
           st \<lparr> lastPreSyncSaveDate := Some (now_presave env) \<rparr>))"

text \<open>
  Modelled from the spec: \<open>setItemsProperties\<close> of the model manager is not part of
  the sources at hand; called with \<open>lastSyncBegan\<close>, it gives the date to the given
  items in the collection.
\<close>

definition setItemsProperties_lastSyncBegan ::
  "PurePayload list \<Rightarrow> jsdate \<Rightarrow> SyncManager \<Rightarrow> SyncManager" where
  "setItemsProperties_lastSyncBegan its beginDate st =
     st \<lparr> master := map (\<lambda>m. if uuid m \<in> uuid ` set its
                              then m \<lparr> lastSyncBegan := Some beginDate \<rparr> else m) (master st) \<rparr>"

text \<open>
  Modelled from the spec: the status objects \<open>SyncOpStatus\<close> and \<open>SyncState\<close> are
  not part of the sources at hand. Of them the state keeps the in-progress flag
  (\<open>setDidBegin\<close>, \<open>setDidEnd\<close>), the last error (\<open>setError\<close>, cleared by
  \<open>reset\<close>) and the dates.
\<close>

definition handleSyncOperationCompletion :: "sync_env \<Rightarrow> nat \<Rightarrow> SyncManager \<Rightarrow> SyncManager" where
  "handleSyncOperationCompletion env numberOfItemsInvolved st =
     st \<lparr> lastError := None, lastSyncDate := Some (now_end env),
          events := events st @
            (if numberOfItemsInvolved \<ge> DEFAULT_MAJOR_CHANGE_THRESHOLD then [MajorDataChange] else [])
            @ [FullSyncCompleted] \<rparr>"

definition handleNeverSyncedDeleted :: "PurePayload list \<Rightarrow> SyncManager \<Rightarrow> SyncManager" where
  "handleNeverSyncedDeleted its st =
     (let payloads = map (\<lambda>item. item \<lparr> dirty := False \<rparr>) its
      in persistPayloads payloads (mapPayloadsToLocalItems payloads st))"


text \<open>
  After the operation: the resolvers that were queued before this call are resolved and
  removed; then the first entry of the spawn queue, if any, starts a sync request, and
  otherwise a non-empty resolve queue starts one. These requests are not awaited.
\<close>

definition afterOperationQueues :: "nat \<Rightarrow> SyncManager \<Rightarrow> SyncManager" where
  "afterOperationQueues inTime st =
     (let st1 = st \<lparr> resolveQueue := resolveQueue st - inTime \<rparr>
      in case spawnQueue st1 of
           opts # rest \<Rightarrow>
             st1 \<lparr> spawnQueue := rest,
                   spawnedSyncs := spawnedSyncs st1 @ [(Some TIMING_STRATEGY_FORCE_SPAWN_NEW, opts)] \<rparr>
         | [] \<Rightarrow>
             if resolveQueue st1 > 0
             then st1 \<lparr> spawnedSyncs := spawnedSyncs st1 @ [(None, None)] \<rparr>
             else st1)"

text \<open>
  \<open>sync\<close>, up to the point where it returns or calls itself again. A \<open>throw\<close> in the
  async function rejects the promise the caller holds: the result is \<open>Inl\<close>, paired
  with the state reached.
\<close>

definition sync_round ::
  "sync_env \<Rightarrow> sync_options \<Rightarrow> SyncManager \<Rightarrow> (js_error + sync_outcome) \<times> SyncManager" where
  "sync_round env opts st =
     (if locked st then (Inr SyncLocked, st)
      else
        let allDirty = itemsNeedingSync st;
            neverSyncedDeleted = filter (\<lambda>item. neverSynced item \<and> deleted item) allDirty;
            its = subtractFromArray allDirty neverSyncedDeleted;
            decryptedPayloads = its;
            (payloadsNeedingSave, st1) = popPayloadsNeedingPreSyncSave env decryptedPayloads st;
            st2 = persistPayloads payloadsNeedingSave st1;
            inTimeResolveQueue = resolveQueue st2;
            useStrategy = (case timingStrategy opts of
                             Some s \<Rightarrow> s | None \<Rightarrow> TIMING_STRATEGY_RESOLVE_ON_NEXT)
        in if syncInProgress st2 \<or> \<not> databaseLoaded st2 then
             (if useStrategy = TIMING_STRATEGY_RESOLVE_ON_NEXT then
                (Inr QueuedResolveOnNext, st2 \<lparr> resolveQueue := resolveQueue st2 + 1 \<rparr>)
              else if useStrategy = TIMING_STRATEGY_FORCE_SPAWN_NEW then
                (Inr QueuedForceSpawnNew,
                 st2 \<lparr> spawnQueue := spawnQueue st2 @ [checkIntegrity opts] \<rparr>)
              else (Inl (Thrown (''Unhandled timing strategy '' @ numberToString (int useStrategy))), st2))
           else
             let st3 = st2 \<lparr> syncInProgress := True \<rparr>;
                 st4 = setItemsProperties_lastSyncBegan its (now_begin env) st3;
                 useMode = (case mode opts of Some m \<Rightarrow> m | None \<Rightarrow> SYNC_MODE_DEFAULT)
             in if useMode = SYNC_MODE_DEFAULT \<and> \<not> completedInitialSync st4 then
                  (Inl (Thrown ''Attempting to default mode sync without having completed initial.''), st4)
                else
                  let uploadPayloads =
                        (if useMode = SYNC_MODE_DEFAULT then
                           Some (map (encrypt env (if online env then IntentSync
                                                   else IntentLocalStorageDecrypted))
                                   decryptedPayloads)
                         else if useMode = SYNC_MODE_INITIAL then Some []
                         else None);
                      (numberOfItemsInvolved, st5) =
                        run_operation env (online env) uploadPayloads
                          (if online env then checkIntegrity opts else None) st4;
                      st6 = st5 \<lparr> syncInProgress := False \<rparr>;
                      st7 = afterOperationQueues inTimeResolveQueue st6;
                      st8 = handleSyncOperationCompletion env numberOfItemsInvolved st7;
                      st9 = handleNeverSyncedDeleted neverSyncedDeleted st8
                  in if useMode = SYNC_MODE_INITIAL then
                       (Inr (RoundCompleted uploadPayloads True),
                        st9 \<lparr> completedInitialSync := True,
                              events := events st9 @ [InitialSyncCompleted] \<rparr>)
                     else (Inr (RoundCompleted uploadPayloads (length (itemsNeedingSync st9) > 0)), st9))"

text \<open>
  \<open>sync\<close> itself: a round, and when the round ends with \<open>return this.sync()\<close>, another
  call without arguments. Nothing in the source bounds the number of rounds (each one may
  leave dirty items behind), so the recursion runs on fuel: \<open>None\<close> means that the fuel
  ran out before a call returned.
\<close>

fun sync ::
  "nat \<Rightarrow> sync_env \<Rightarrow> sync_options \<Rightarrow> SyncManager \<Rightarrow>
   ((js_error + sync_outcome) \<times> SyncManager) option" where
  "sync 0 env opts st = None"
| "sync (Suc fuel) env opts st =
     (case sync_round env opts st of
        (Inr (RoundCompleted up True), st') \<Rightarrow>
          sync fuel env \<lparr> timingStrategy = None, mode = None, checkIntegrity = None \<rparr> st'
      | r \<Rightarrow> Some r)"


























section \<open>Key recovery: ignored items keys\<close>

text \<open>
  Modelled from the spec: \<open>PayloadManager.emitPayloads\<close> is not part of the sources at
  hand. It inserts or overlays the payloads into the master collection and reports them
  as changed, inserted, discarded and ignored. The ignored-key rule: a payload of content
  type \<open>SN|ItemsKey\<close> that has \<open>errorDecrypting = true\<close> while the current copy
  decrypts is routed into \<open>ignored\<close>, and the master copy is kept. (The spec does not
  say which payloads count as discarded; none do here, and the observer below does not
  read them.)
\<close>

definition ContentType_ItemsKey :: string where
  "ContentType_ItemsKey = ''SN|ItemsKey''"

record emission =
  changed :: "PurePayload list"
  inserted :: "PurePayload list"
  discarded :: "PurePayload list"
  ignored :: "PurePayload list"

fun emitLoop ::
  "PurePayload list \<Rightarrow> (uuid_string \<rightharpoonup> PurePayload) \<Rightarrow> emission \<Rightarrow>
   emission \<times> (uuid_string \<rightharpoonup> PurePayload)" where
  "emitLoop [] collection em = (em, collection)"
| "emitLoop (p # ps) collection em =
     (case collection (uuid p) of
        None \<Rightarrow> emitLoop ps (collection(uuid p \<mapsto> p)) (em \<lparr> inserted := inserted em @ [p] \<rparr>)
      | Some current \<Rightarrow>
          if content_type p = ContentType_ItemsKey \<and> errorDecrypting p \<and>
             \<not> errorDecrypting current
          then emitLoop ps collection (em \<lparr> ignored := ignored em @ [p] \<rparr>)
          else emitLoop ps (collection(uuid p \<mapsto> p)) (em \<lparr> changed := changed em @ [p] \<rparr>))"

definition emitPayloads ::
  "PurePayload list \<Rightarrow> (uuid_string \<rightharpoonup> PurePayload) \<Rightarrow>
   emission \<times> (uuid_string \<rightharpoonup> PurePayload)" where
  "emitPayloads payloads collection =
     emitLoop payloads collection \<lparr> changed = [], inserted = [], discarded = [], ignored = [] \<rparr>"

text \<open>
  \<open>SNKeyRecoveryService\<close>. Its state here: the record stored under
  \<open>StorageKey.KeyRecoveryUndecryptableItems\<close> (\<open>None\<close> while nothing was stored, read
  as the empty record), and the decryption queue. Processing the queue prompts for
  passwords and is not modelled: the handlers below end where the source calls
  \<open>beginProcessingQueue\<close>. \<open>getKeyEmbeddedKeyParams\<close> of the protocol service is a
  parameter.
\<close>

record DecryptionQueueItem =
  queue_key :: SNItem
  queue_keyParams :: KeyParams
  queue_has_callback :: bool

record SNKeyRecoveryService =
  undecryptables :: "(uuid_string \<rightharpoonup> PurePayload) option"
  decryptionQueue :: "DecryptionQueueItem list"

definition getUndecryptables :: "SNKeyRecoveryService \<Rightarrow> (uuid_string \<rightharpoonup> PurePayload)" where
  "getUndecryptables st = (case undecryptables st of None \<Rightarrow> Map.empty | Some record \<Rightarrow> record)"

definition persistUndecryptables ::
  "(uuid_string \<rightharpoonup> PurePayload) \<Rightarrow> SNKeyRecoveryService \<Rightarrow> SNKeyRecoveryService" where
  "persistUndecryptables record st = st \<lparr> undecryptables := Some record \<rparr>"

text \<open>
  Modelled from the spec: \<open>PurePayload.ejected\<close> is not part of the sources at hand; it
  is the raw payload, the plain object of the payload's fields.
\<close>

definition ejected :: "PurePayload \<Rightarrow> PurePayload" where
  "ejected p = p"

definition saveToUndecryptables :: "SNItem list \<Rightarrow> SNKeyRecoveryService \<Rightarrow> SNKeyRecoveryService" where
  "saveToUndecryptables keys st =
     persistUndecryptables
       (foldl (\<lambda>record key. record(uuid (payload key) \<mapsto> ejected (payload key)))
          (getUndecryptables st) keys)
       st"

fun addKeysToQueue ::
  "(SNItem \<Rightarrow> KeyParams option) \<Rightarrow> SNItem list \<Rightarrow> bool \<Rightarrow> SNKeyRecoveryService \<Rightarrow>
   SNKeyRecoveryService" where
  "addKeysToQueue getKeyEmbeddedKeyParams [] callback st = st"
| "addKeysToQueue getKeyEmbeddedKeyParams (key # keys) callback st =
     (case getKeyEmbeddedKeyParams key of
        None \<Rightarrow> addKeysToQueue getKeyEmbeddedKeyParams keys callback st
      | Some kp \<Rightarrow>
          addKeysToQueue getKeyEmbeddedKeyParams keys callback
            (st \<lparr> decryptionQueue := decryptionQueue st @
                    [\<lparr> queue_key = key, queue_keyParams = kp, queue_has_callback = callback \<rparr>] \<rparr>))"

definition handleIgnoredItemsKeys ::
  "(SNItem \<Rightarrow> KeyParams option) \<Rightarrow> SNItem list \<Rightarrow> bool \<Rightarrow> SNKeyRecoveryService \<Rightarrow>
   SNKeyRecoveryService" where
  "handleIgnoredItemsKeys getKeyEmbeddedKeyParams keys persistIncoming st =
     (let st1 = (if persistIncoming then saveToUndecryptables keys st else st)
      in addKeysToQueue getKeyEmbeddedKeyParams keys True st1)"

definition handleUndecryptableItemsKeys ::
  "(SNItem \<Rightarrow> KeyParams option) \<Rightarrow> SNItem list \<Rightarrow> SNKeyRecoveryService \<Rightarrow>
   SNKeyRecoveryService" where
  "handleUndecryptableItemsKeys getKeyEmbeddedKeyParams keys st =
     addKeysToQueue getKeyEmbeddedKeyParams keys False st"

text \<open>
  The observer that the constructor registers for items of content type
  \<open>SN|ItemsKey\<close>.
\<close>

definition itemsKeyObserver ::
  "(SNItem \<Rightarrow> KeyParams option) \<Rightarrow> SNItem list \<Rightarrow> SNItem list \<Rightarrow> SNItem list \<Rightarrow>
   SNItem list \<Rightarrow> PayloadSource \<Rightarrow> SNKeyRecoveryService \<Rightarrow> SNKeyRecoveryService" where
  "itemsKeyObserver getKeyEmbeddedKeyParams changedItems insertedItems discardedItems
     ignoredItems src st =
     (if src = LocalChanged then st
      else
        let changedOrInserted =
              filter (\<lambda>k. errorDecrypting (payload k)) (changedItems @ insertedItems);
            st1 = (if length changedOrInserted > 0
                   then handleUndecryptableItemsKeys getKeyEmbeddedKeyParams changedOrInserted st
                   else st)
        in if length ignoredItems > 0
           then handleIgnoredItemsKeys getKeyEmbeddedKeyParams ignoredItems True st1
           else st1)"

text \<open>
  Modelled from the spec: the item manager (not part of the sources at hand) notifies an
  observer registered for a content type with the items of that type among the changed,
  inserted, discarded and ignored payloads of an emission, and with the source.
\<close>

definition itemsOfType :: "string \<Rightarrow> PurePayload list \<Rightarrow> SNItem list" where
  "itemsOfType t ps =
     map (\<lambda>p. \<lparr> payload = p, isSingleton = False \<rparr>) (filter (\<lambda>p. content_type p = t) ps)"

definition emitAndNotify ::
  "(SNItem \<Rightarrow> KeyParams option) \<Rightarrow> PurePayload list \<Rightarrow> PayloadSource \<Rightarrow>
   (uuid_string \<rightharpoonup> PurePayload) \<times> SNKeyRecoveryService \<Rightarrow>
   emission \<times> (uuid_string \<rightharpoonup> PurePayload) \<times> SNKeyRecoveryService" where
  "emitAndNotify getKeyEmbeddedKeyParams payloads src state =
     (let (em, collection') = emitPayloads payloads (fst state)
      in (em, collection',
          itemsKeyObserver getKeyEmbeddedKeyParams
            (itemsOfType ContentType_ItemsKey (changed em))
            (itemsOfType ContentType_ItemsKey (inserted em))
            (itemsOfType ContentType_ItemsKey (discarded em))
            (itemsOfType ContentType_ItemsKey (ignored em))
            src (snd state)))"

lemma emitLoop_other:
  "k \<notin> uuid ` set ps \<Longrightarrow> snd (emitLoop ps c em) k = c k"
  by (induction ps c em rule: emitLoop.induct)
     (auto split: option.splits simp add: fun_upd_other simp del: fun_upd_apply)

lemma emitLoop_ignored_mono:
  "set (ignored em) \<subseteq> set (ignored (fst (emitLoop ps c em)))"
  by (induction ps c em rule: emitLoop.induct)
     (auto split: option.splits simp del: fun_upd_apply)

lemma emitLoop_ignored_subset:
  "set (ignored (fst (emitLoop ps c em))) \<subseteq> set (ignored em) \<union> set ps"
  by (induction ps c em rule: emitLoop.induct)
     (auto split: option.splits simp del: fun_upd_apply)

lemma emitLoop_ignores:
  assumes "distinct (map uuid ps)" "p \<in> set ps"
    and "content_type p = ContentType_ItemsKey" "errorDecrypting p"
    and "c (uuid p) = Some current" "\<not> errorDecrypting current"
  shows "p \<in> set (ignored (fst (emitLoop ps c em))) \<and> snd (emitLoop ps c em) (uuid p) = Some current"
  using assms
proof (induction ps c em rule: emitLoop.induct)
  case (1 collection em)
  then show ?case by simp
next
  case (2 q ps collection em)
  show ?case
  proof (cases "q = p")
    case True
    with "2.prems" have notin: "uuid p \<notin> uuid ` set ps" by auto
    have "p \<in> set (ignored (em \<lparr> ignored := ignored em @ [p] \<rparr>))" by simp
    then have "p \<in> set (ignored (fst (emitLoop ps collection (em \<lparr> ignored := ignored em @ [p] \<rparr>))))"
      using emitLoop_ignored_mono by blast
    then show ?thesis
      using True "2.prems" notin by (simp add: emitLoop_other)
  next
    case False
    with "2.prems" have neq: "uuid q \<noteq> uuid p"
      by (metis distinct.simps(2) image_eqI list.simps(9) set_ConsD set_map)
    from False "2.prems" have p: "p \<in> set ps" and d: "distinct (map uuid ps)" by auto
    show ?thesis
    proof (cases "collection (uuid q)")
      case None
      then show ?thesis
        using "2.IH"(1) [OF None d p] "2.prems" neq by (simp add: fun_upd_other del: fun_upd_apply)
    next
      case (Some cur)
      show ?thesis
      proof (cases "content_type q = ContentType_ItemsKey \<and> errorDecrypting q \<and> \<not> errorDecrypting cur")
        case True
        then show ?thesis
          using "2.IH"(2) [OF Some True d p] "2.prems" Some by auto
      next
        case False
        then show ?thesis
          using "2.IH"(3) [OF Some False d p] "2.prems" Some neq
          by (auto simp add: fun_upd_other simp del: fun_upd_apply)
      qed
    qed
  qed
qed

lemma addKeysToQueue_undecryptables:
  "undecryptables (addKeysToQueue gk keys cb st) = undecryptables st"
  by (induction gk keys cb st rule: addKeysToQueue.induct) (auto split: option.splits)

lemma foldl_record_untouched:
  "u \<notin> (\<lambda>k. uuid (payload k)) ` set keys \<Longrightarrow>
   foldl (\<lambda>record key. record(uuid (payload key) \<mapsto> ejected (payload key))) r keys u = r u"
  by (induction keys arbitrary: r) auto

lemma foldl_record_written:
  assumes "\<exists>k \<in> set keys. uuid (payload k) = u"
    and "\<forall>k \<in> set keys. uuid (payload k) = u \<longrightarrow> ejected (payload k) = v"
  shows "foldl (\<lambda>record key. record(uuid (payload key) \<mapsto> ejected (payload key))) r keys u = Some v"
  using assms
proof (induction keys arbitrary: r)
  case Nil
  then show ?case by simp
next
  case (Cons k ks)
  show ?case
  proof (cases "\<exists>k' \<in> set ks. uuid (payload k') = u")
    case True
    with Cons show ?thesis by simp
  next
    case False
    with Cons.prems have k: "uuid (payload k) = u" "ejected (payload k) = v" by auto
    from False have "u \<notin> (\<lambda>k. uuid (payload k)) ` set ks" by auto
    from foldl_record_untouched [OF this, of "r(uuid (payload k) \<mapsto> ejected (payload k))"] k
    show ?thesis by (simp del: fun_upd_apply) simp
  qed
qed

lemma saveToUndecryptables_written:
  assumes "\<exists>k \<in> set keys. uuid (payload k) = u"
    and "\<forall>k \<in> set keys. uuid (payload k) = u \<longrightarrow> ejected (payload k) = v"
  shows "getUndecryptables (saveToUndecryptables keys st) u = Some v"
  using foldl_record_written [OF assms]
  by (simp add: saveToUndecryptables_def persistUndecryptables_def getUndecryptables_def)

lemma observer_persists_ignored:
  assumes "src \<noteq> LocalChanged"
    and "\<exists>k \<in> set ignoredItems. uuid (payload k) = u"
    and "\<forall>k \<in> set ignoredItems. uuid (payload k) = u \<longrightarrow> ejected (payload k) = v"
  shows "getUndecryptables
           (itemsKeyObserver gk changedItems insertedItems discardedItems ignoredItems src st) u
         = Some v"
proof -
  from assms(2) have ne: "length ignoredItems > 0" by auto
  show ?thesis
    using assms(1) ne saveToUndecryptables_written [OF assms(2,3)]
    by (simp add: itemsKeyObserver_def Let_def handleIgnoredItemsKeys_def
        getUndecryptables_def addKeysToQueue_undecryptables)
qed

text \<open>
  C3 (amended): whenever a payload of content type \<open>SN|ItemsKey\<close> with
  \<open>errorDecrypting = true\<close> is emitted from a source other than \<open>LocalChanged\<close>
  while the current master copy decrypts, the payload is routed into the ignored set, the
  master copy stays as it was, and the raw payload is persisted in the record of
  undecryptable items under its uuid.
\<close>

theorem ignored_items_key_persisted:
  assumes src: "src \<noteq> LocalChanged"
    and emitted: "distinct (map uuid payloads)" "p \<in> set payloads"
    and incoming: "content_type p = ContentType_ItemsKey" "errorDecrypting p"
    and current: "collection (uuid p) = Some current" "\<not> errorDecrypting current"
  shows "p \<in> set (ignored (fst (emitAndNotify gk payloads src (collection, st)))) \<and>
         fst (snd (emitAndNotify gk payloads src (collection, st))) (uuid p) = Some current \<and>
         getUndecryptables (snd (snd (emitAndNotify gk payloads src (collection, st)))) (uuid p)
           = Some (ejected p)"
proof -
  let ?em0 = "\<lparr> changed = [], inserted = [], discarded = [], ignored = [] \<rparr>"
  let ?r = "emitLoop payloads collection ?em0"
  from emitLoop_ignores [where ps = payloads and p = p and c = collection
      and current = current and em = ?em0] emitted incoming current
  have ign: "p \<in> set (ignored (fst ?r))" and kept: "snd ?r (uuid p) = Some current"
    by auto
  let ?keys = "itemsOfType ContentType_ItemsKey (ignored (fst ?r))"
  have ex: "\<exists>k \<in> set ?keys. uuid (payload k) = uuid p"
    using ign incoming(1) by (force simp: itemsOfType_def)
  have sub: "set (ignored (fst ?r)) \<subseteq> set payloads"
    using emitLoop_ignored_subset [of payloads collection ?em0] by simp
  have uniq: "\<forall>k \<in> set ?keys. uuid (payload k) = uuid p \<longrightarrow> ejected (payload k) = ejected p"
  proof (intro ballI impI)
    fix k assume "k \<in> set ?keys" "uuid (payload k) = uuid p"
    then have "payload k \<in> set payloads" "uuid (payload k) = uuid p"
      using sub by (auto simp: itemsOfType_def)
    with emitted have "payload k = p"
      by (metis distinct_map inj_onD)
    then show "ejected (payload k) = ejected p" by simp
  qed
  have "getUndecryptables
          (itemsKeyObserver gk (itemsOfType ContentType_ItemsKey (changed (fst ?r)))
             (itemsOfType ContentType_ItemsKey (inserted (fst ?r)))
             (itemsOfType ContentType_ItemsKey (discarded (fst ?r))) ?keys src st) (uuid p)
        = Some (ejected p)"
    by (rule observer_persists_ignored [OF src ex uniq])
  then show ?thesis
    using ign kept by (simp add: emitAndNotify_def emitPayloads_def case_prod_unfold Let_def)
qed

definition items_key :: "bool \<Rightarrow> PurePayload" where
  "items_key errored = sample_payload \<lparr> uuid := ''key-1'', content_type := ''SN|ItemsKey'',
     content := (if errored then Some (ContentString ''004:ciphertext'')
                 else Some (ContentObject empty_content)),
     errorDecrypting := errored \<rparr>"

definition empty_recovery :: SNKeyRecoveryService where
  "empty_recovery = \<lparr> undecryptables = None, decryptionQueue = [] \<rparr>"

theorem ignored_items_key_persisted_witness:
  "RemoteRetrieved \<noteq> LocalChanged \<and> distinct (map uuid [items_key True]) \<and>
   content_type (items_key True) = ContentType_ItemsKey \<and> errorDecrypting (items_key True) \<and>
   [''key-1'' \<mapsto> items_key False] (uuid (items_key True)) = Some (items_key False) \<and>
   \<not> errorDecrypting (items_key False) \<and>
   ignored (fst (emitAndNotify (\<lambda>k. None) [items_key True] RemoteRetrieved
       ([''key-1'' \<mapsto> items_key False], empty_recovery))) = [items_key True] \<and>
   fst (snd (emitAndNotify (\<lambda>k. None) [items_key True] RemoteRetrieved
       ([''key-1'' \<mapsto> items_key False], empty_recovery))) ''key-1'' = Some (items_key False) \<and>
   getUndecryptables (snd (snd (emitAndNotify (\<lambda>k. None) [items_key True] RemoteRetrieved
       ([''key-1'' \<mapsto> items_key False], empty_recovery)))) ''key-1'' = Some (items_key True)"
proof -
  have hyps: "RemoteRetrieved \<noteq> LocalChanged" "distinct (map uuid [items_key True])"
    "items_key True \<in> set [items_key True]"
    "content_type (items_key True) = ContentType_ItemsKey" "errorDecrypting (items_key True)"
    "[''key-1'' \<mapsto> items_key False] (uuid (items_key True)) = Some (items_key False)"
    "\<not> errorDecrypting (items_key False)"
    by (simp_all add: items_key_def ContentType_ItemsKey_def sample_payload_def)
  have u: "uuid (items_key True) = ''key-1''" by (simp add: items_key_def)
  have ign: "ignored (fst (emitAndNotify (\<lambda>k. None) [items_key True] RemoteRetrieved
       ([''key-1'' \<mapsto> items_key False], empty_recovery))) = [items_key True]"
    using hyps by (simp add: emitAndNotify_def emitPayloads_def case_prod_unfold Let_def u)
  from ignored_items_key_persisted [where src = RemoteRetrieved and payloads = "[items_key True]"
      and p = "items_key True" and collection = "[''key-1'' \<mapsto> items_key False]"
      and current = "items_key False" and gk = "\<lambda>k. None" and st = empty_recovery] hyps ign
  show ?thesis by (simp add: u ejected_def)
qed

text \<open>
  C3 (as stated): every such arrival is persisted. The observer returns at once when the
  source is \<open>LocalChanged\<close>: the payload is ignored, and nothing is persisted.
\<close>

theorem ignored_items_key_local_change_counterexample:
  "ignored (fst (emitAndNotify (\<lambda>k. None) [items_key True] LocalChanged
       ([''key-1'' \<mapsto> items_key False], empty_recovery))) = [items_key True] \<and>
   getUndecryptables (snd (snd (emitAndNotify (\<lambda>k. None) [items_key True] LocalChanged
       ([''key-1'' \<mapsto> items_key False], empty_recovery)))) ''key-1'' = None"
  by (simp add: emitAndNotify_def emitPayloads_def case_prod_unfold Let_def items_key_def
      ContentType_ItemsKey_def sample_payload_def itemsKeyObserver_def getUndecryptables_def
      empty_recovery_def)

section \<open>The item mutator\<close>

text \<open>
  The enumeration \<open>MutationType\<close> gives both of its members the value 1, and
  \<open>getResult\<close> compares values.
\<close>

datatype MutationType = UserInteraction | Internal

fun MutationType_value :: "MutationType \<Rightarrow> nat" where
  "MutationType_value UserInteraction = 1"
| "MutationType_value Internal = 1"

definition UserModifiedDateKey :: string where
  "UserModifiedDateKey = ''client_updated_at''"

definition DefaultAppDomain :: string where
  "DefaultAppDomain = ''org.standardnotes.sn''"

text \<open>
  The mutator: the item it was built from, the mutation type, the payload and the working
  copy of the content. Values are immutable here, so the item and its payload cannot
  change under the mutator; what can be observed is the item the mutator still refers to.
\<close>

record ItemMutator =
  m_item :: SNItem
  m_source :: MutationType
  m_payload :: PurePayload
  m_content :: "content_value option"

text \<open>
  Modelled from the spec: \<open>Copy\<close> of \<open>@Lib/utils\<close> and \<open>CopyPayload\<close> of the payload
  generator are not part of the sources at hand. \<open>Copy\<close> gives the working copy of the
  content (a deep copy is the same value); \<open>CopyPayload\<close> builds a new payload from a
  payload and an override, an override object being the record update it performs.
\<close>

definition Copy :: "content_value option \<Rightarrow> content_value option" where
  "Copy c = c"

definition CopyPayload :: "PurePayload \<Rightarrow> (PurePayload \<Rightarrow> PurePayload) \<Rightarrow> PurePayload" where
  "CopyPayload p override = override p"

definition ItemMutator_new :: "SNItem \<Rightarrow> MutationType \<Rightarrow> ItemMutator" where
  "ItemMutator_new item src =
     \<lparr> m_item = item, m_source = src, m_payload = payload item,
       m_content = Copy (content (payload item)) \<rparr>"

text \<open>Truthiness of a value, and \<open>new Date(d)\<close> for a date that may be missing.\<close>

definition truthy :: "jsvalue \<Rightarrow> bool" where
  "truthy v = (case v of
                 JUndefined \<Rightarrow> False
               | JBool b \<Rightarrow> b
               | JString s \<Rightarrow> s \<noteq> []
               | JDate t \<Rightarrow> True
               | JInvalidDate \<Rightarrow> True)"

definition newDate :: "jsdate option \<Rightarrow> jsvalue" where
  "newDate d = (case d of None \<Rightarrow> JInvalidDate | Some t \<Rightarrow> JDate t)"

text \<open>
  Modelled from the spec: the getter \<open>safeContent\<close> of \<open>PurePayload\<close> is not part of
  the sources at hand; it is the content, or an empty object when there is none, so its
  \<open>appData\<close> is that of a content object and \<open>undefined\<close> otherwise.
\<close>

definition safeContent_appData :: "PurePayload \<Rightarrow> (string \<rightharpoonup> (string \<rightharpoonup> jsvalue)) option" where
  "safeContent_appData p =
     (case content p of Some (ContentObject c) \<Rightarrow> appData c | _ \<Rightarrow> None)"

definition getDomainData :: "SNItem \<Rightarrow> string \<Rightarrow> (string \<rightharpoonup> jsvalue) option" where
  "getDomainData item domain =
     (case safeContent_appData (payload item) of
        None \<Rightarrow> None
      | Some domainData \<Rightarrow> domainData domain)"

definition getAppDomainValue :: "SNItem \<Rightarrow> string \<Rightarrow> js_error + jsvalue" where
  "getAppDomainValue item key =
     (case getDomainData item DefaultAppDomain of
        None \<Rightarrow> Inl TypeError
      | Some data \<Rightarrow> Inr (case data key of None \<Rightarrow> JUndefined | Some v \<Rightarrow> v))"

text \<open>
  The setters dereference \<open>this.content!\<close>: on a missing content that is a TypeError,
  and so is the assignment of a property on a ciphertext string (module code is strict).
\<close>

definition setDomainDataKey ::
  "string \<Rightarrow> jsvalue \<Rightarrow> string \<Rightarrow> ItemMutator \<Rightarrow> js_error + ItemMutator" where
  "setDomainDataKey key v domain m =
     (if errorDecrypting (m_payload m) then Inr m
      else
        (case m_content m of
           None \<Rightarrow> Inl TypeError
         | Some (ContentString s) \<Rightarrow> Inl TypeError
         | Some (ContentObject c) \<Rightarrow>
             let globalData = (case appData c of None \<Rightarrow> Map.empty | Some g \<Rightarrow> g);
                 domainData = (case globalData domain of None \<Rightarrow> Map.empty | Some d \<Rightarrow> d)
             in Inr (m \<lparr> m_content := Some (ContentObject
                      (c \<lparr> appData := Some (globalData(domain \<mapsto> domainData(key \<mapsto> v))) \<rparr>)) \<rparr>)))"

definition setAppDataItem :: "string \<Rightarrow> jsvalue \<Rightarrow> ItemMutator \<Rightarrow> js_error + ItemMutator" where
  "setAppDataItem key v m = setDomainDataKey key v DefaultAppDomain m"

definition getResult ::
  "jsdate \<Rightarrow> jsdate \<Rightarrow> ItemMutator \<Rightarrow> js_error + PurePayload \<times> ItemMutator" where
  "getResult modifiedNow dirtiedNow m =
     (case (if \<not> deleted (m_payload m) then
              (if MutationType_value (m_source m) = MutationType_value UserInteraction then
                 setAppDataItem UserModifiedDateKey (JDate modifiedNow) m
               else
                 (case getAppDomainValue (m_item m) UserModifiedDateKey of
                    Inl e \<Rightarrow> Inl e
                  | Inr currentValue \<Rightarrow>
                      if \<not> truthy currentValue then
                        setAppDataItem UserModifiedDateKey
                          (newDate (updated_at (payload (m_item m)))) m
                      else Inr m))
            else Inr m) of
        Inl e \<Rightarrow> Inl e
      | Inr m' \<Rightarrow>
          Inr (CopyPayload (m_payload m')
                 (\<lambda>p. p \<lparr> content := m_content m', dirty := True, dirtiedDate := Some dirtiedNow \<rparr>),
               m'))"

definition setDeleted :: "ItemMutator \<Rightarrow> ItemMutator" where
  "setDeleted m =
     (let m1 = m \<lparr> m_content := None \<rparr>
      in m1 \<lparr> m_payload := CopyPayload (m_payload m1)
                 (\<lambda>p. p \<lparr> content := m_content m1, deleted := True \<rparr>) \<rparr>)"

definition set_lastSyncBegan :: "jsdate \<Rightarrow> ItemMutator \<Rightarrow> ItemMutator" where
  "set_lastSyncBegan began m =
     m \<lparr> m_payload := CopyPayload (m_payload m)
            (\<lambda>p. p \<lparr> content := m_content m, lastSyncBegan := Some began \<rparr>) \<rparr>"

definition set_protected :: "bool \<Rightarrow> ItemMutator \<Rightarrow> js_error + ItemMutator" where
  "set_protected isProtected m =
     (case m_content m of
        Some (ContentObject c) \<Rightarrow>
          Inr (m \<lparr> m_content := Some (ContentObject (c \<lparr> content_protected := Some isProtected \<rparr>)) \<rparr>)
      | _ \<Rightarrow> Inl TypeError)"

definition set_trashed :: "bool \<Rightarrow> ItemMutator \<Rightarrow> js_error + ItemMutator" where
  "set_trashed isTrashed m =
     (case m_content m of
        Some (ContentObject c) \<Rightarrow>
          Inr (m \<lparr> m_content := Some (ContentObject (c \<lparr> content_trashed := Some isTrashed \<rparr>)) \<rparr>)
      | _ \<Rightarrow> Inl TypeError)"

text \<open>
  \<open>setDomainData\<close> evaluates \<open>content.appData[domain] || data\<close> on the local
  \<open>content = this.content!.appData || {}\<close> and assigns nothing.
\<close>

definition setDomainData :: "(string \<rightharpoonup> jsvalue) \<Rightarrow> string \<Rightarrow> ItemMutator \<Rightarrow> js_error + ItemMutator" where
  "setDomainData data domain m =
     (if errorDecrypting (m_payload m) then Inr m
      else
        (case m_content m of
           None \<Rightarrow> Inl TypeError
         | Some cv \<Rightarrow>
             let content_local = (case cv of
                                    ContentObject c \<Rightarrow>
                                      (case appData c of None \<Rightarrow> Map.empty | Some g \<Rightarrow> g)
                                  | ContentString s \<Rightarrow> Map.empty)
             in (case content_local ''appData'' of
                   None \<Rightarrow> Inl TypeError
                 | Some d \<Rightarrow> Inr m)))"

definition addItemAsRelationship :: "SNItem \<Rightarrow> ItemMutator \<Rightarrow> js_error + ItemMutator" where
  "addItemAsRelationship item m =
     (case m_content m of
        Some (ContentObject c) \<Rightarrow>
          let refs = (case references c of None \<Rightarrow> [] | Some rs \<Rightarrow> rs);
              refs' = (if \<exists>r \<in> set refs. ref_uuid r = uuid (payload item) then refs
                       else refs @ [\<lparr> ref_uuid = uuid (payload item),
                                      ref_content_type = content_type (payload item) \<rparr>])
          in Inr (m \<lparr> m_content := Some (ContentObject (c \<lparr> references := Some refs' \<rparr>)) \<rparr>)
      | _ \<Rightarrow> Inl TypeError)"

definition removeItemAsRelationship :: "SNItem \<Rightarrow> ItemMutator \<Rightarrow> js_error + ItemMutator" where
  "removeItemAsRelationship item m =
     (case m_content m of
        Some (ContentObject c) \<Rightarrow>
          let refs = (case references c of None \<Rightarrow> [] | Some rs \<Rightarrow> rs);
              refs' = filter (\<lambda>r. ref_uuid r \<noteq> uuid (payload item)) refs
          in Inr (m \<lparr> m_content := Some (ContentObject (c \<lparr> references := Some refs' \<rparr>)) \<rparr>)
      | _ \<Rightarrow> Inl TypeError)"

text \<open>The operations a caller can apply to a mutator before asking for the result.\<close>

datatype mutation =
    SetDeleted
  | SetLastSyncBegan jsdate
  | SetProtected bool
  | SetTrashed bool
  | SetPinned bool
  | SetArchived bool
  | SetLocked bool
  | SetDomainData "string \<rightharpoonup> jsvalue" string
  | SetDomainDataKey string jsvalue string
  | SetAppDataItem string jsvalue
  | AddItemAsRelationship SNItem
  | RemoveItemAsRelationship SNItem

fun apply_mutation :: "mutation \<Rightarrow> ItemMutator \<Rightarrow> js_error + ItemMutator" where
  "apply_mutation SetDeleted m = Inr (setDeleted m)"
| "apply_mutation (SetLastSyncBegan d) m = Inr (set_lastSyncBegan d m)"
| "apply_mutation (SetProtected b) m = set_protected b m"
| "apply_mutation (SetTrashed b) m = set_trashed b m"
| "apply_mutation (SetPinned b) m = setAppDataItem ''pinned'' (JBool b) m"
| "apply_mutation (SetArchived b) m = setAppDataItem ''archived'' (JBool b) m"
| "apply_mutation (SetLocked b) m = setAppDataItem ''locked'' (JBool b) m"
| "apply_mutation (SetDomainData data domain) m = setDomainData data domain m"
| "apply_mutation (SetDomainDataKey key v domain) m = setDomainDataKey key v domain m"
| "apply_mutation (SetAppDataItem key v) m = setAppDataItem key v m"
| "apply_mutation (AddItemAsRelationship item) m = addItemAsRelationship item m"
| "apply_mutation (RemoveItemAsRelationship item) m = removeItemAsRelationship item m"

fun apply_mutations :: "mutation list \<Rightarrow> ItemMutator \<Rightarrow> js_error + ItemMutator" where
  "apply_mutations [] m = Inr m"
| "apply_mutations (x # xs) m =
     (case apply_mutation x m of Inl e \<Rightarrow> Inl e | Inr m' \<Rightarrow> apply_mutations xs m')"

text \<open>
  The payload states the setters are written for: deleted (no content), errored (the
  content is ciphertext, which the app-data setters leave alone), or with a content object.
\<close>

definition mutable :: "ItemMutator \<Rightarrow> bool" where
  "mutable m \<longleftrightarrow>
     deleted (m_payload m) \<or> errorDecrypting (m_payload m) \<or>
     (\<exists>c. m_content m = Some (ContentObject c))"

lemma apply_mutation_keeps:
  "apply_mutation x m = Inr m' \<Longrightarrow> mutable m \<Longrightarrow> mutable m' \<and> m_item m' = m_item m"
  by (cases x)
     (auto simp: mutable_def setDeleted_def set_lastSyncBegan_def CopyPayload_def
        set_protected_def set_trashed_def setAppDataItem_def setDomainDataKey_def
        setDomainData_def addItemAsRelationship_def removeItemAsRelationship_def Let_def
        split: if_splits option.splits content_value.splits)

lemma apply_mutations_keeps:
  "apply_mutations xs m = Inr m' \<Longrightarrow> mutable m \<Longrightarrow> mutable m' \<and> m_item m' = m_item m"
proof (induction xs arbitrary: m)
  case Nil
  then show ?case by simp
next
  case (Cons x xs)
  from Cons.prems(1) obtain m1 where
    step: "apply_mutation x m = Inr m1" and rest: "apply_mutations xs m1 = Inr m'"
    by (auto split: sum.splits)
  from apply_mutation_keeps [OF step Cons.prems(2)] have "mutable m1" "m_item m1 = m_item m"
    by auto
  with Cons.IH [OF rest] show ?case by simp
qed

lemma getResult_mutable:
  assumes "mutable m"
  shows "\<exists>p m'. getResult modifiedNow dirtiedNow m = Inr (p, m') \<and> dirty p \<and>
           dirtiedDate p = Some dirtiedNow \<and> m_item m' = m_item m"
  using assms
  by (cases "m_source m")
     (auto simp: mutable_def getResult_def setAppDataItem_def setDomainDataKey_def
        CopyPayload_def Let_def)

text \<open>
  C7 (amended): for every item whose payload is deleted, or errored, or carries a content
  object, and every sequence of mutations applied through an \<open>ItemMutator\<close> that runs to
  its end, \<open>getResult\<close> returns a new payload whose \<open>dirty\<close> field is true and whose
  \<open>dirtiedDate\<close> is the clock's reading in the call, and the mutator still refers to
  the original item with its payload as it was.
\<close>

theorem getResult_dirty:
  assumes "deleted (payload item) \<or> errorDecrypting (payload item) \<or>
           (\<exists>c. content (payload item) = Some (ContentObject c))"
    and "apply_mutations ms (ItemMutator_new item src) = Inr m"
  shows "\<exists>p m'. getResult modifiedNow dirtiedNow m = Inr (p, m') \<and>
           dirty p \<and> dirtiedDate p = Some dirtiedNow \<and>
           m_item m = item \<and> m_item m' = item"
proof -
  have "mutable (ItemMutator_new item src)"
    using assms(1) by (simp add: mutable_def ItemMutator_new_def Copy_def)
  from apply_mutations_keeps [OF assms(2) this]
  have m: "mutable m" "m_item m = item"
    by (simp_all add: ItemMutator_new_def)
  from getResult_mutable [OF m(1), of modifiedNow dirtiedNow] m(2)
  show ?thesis by auto
qed

theorem getResult_dirty_witness:
  "content (payload sample_item) = Some (ContentObject empty_content) \<and>
   apply_mutations [SetPinned True, SetLastSyncBegan 7001] (ItemMutator_new sample_item Internal) =
     Inr \<lparr> m_item = sample_item, m_source = Internal,
           m_payload = sample_payload \<lparr> content := Some (ContentObject (empty_content
              \<lparr> appData := Some [''org.standardnotes.sn'' \<mapsto> [''pinned'' \<mapsto> JBool True]] \<rparr>)),
              lastSyncBegan := Some 7001 \<rparr>,
           m_content = Some (ContentObject (empty_content
              \<lparr> appData := Some [''org.standardnotes.sn'' \<mapsto> [''pinned'' \<mapsto> JBool True]] \<rparr>)) \<rparr> \<and>
   (\<exists>p m'. getResult 8000 8001 \<lparr> m_item = sample_item, m_source = Internal,
           m_payload = sample_payload \<lparr> content := Some (ContentObject (empty_content
              \<lparr> appData := Some [''org.standardnotes.sn'' \<mapsto> [''pinned'' \<mapsto> JBool True]] \<rparr>)),
              lastSyncBegan := Some 7001 \<rparr>,
           m_content = Some (ContentObject (empty_content
              \<lparr> appData := Some [''org.standardnotes.sn'' \<mapsto> [''pinned'' \<mapsto> JBool True]] \<rparr>)) \<rparr>
         = Inr (p, m') \<and> dirty p \<and> dirtiedDate p = Some 8001 \<and> m_item m' = sample_item)"
proof -
  have c: "content (payload sample_item) = Some (ContentObject empty_content)"
    by (simp add: sample_item_def sample_payload_def)
  have run: "apply_mutations [SetPinned True, SetLastSyncBegan 7001] (ItemMutator_new sample_item Internal) =
     Inr \<lparr> m_item = sample_item, m_source = Internal,
           m_payload = sample_payload \<lparr> content := Some (ContentObject (empty_content
              \<lparr> appData := Some [''org.standardnotes.sn'' \<mapsto> [''pinned'' \<mapsto> JBool True]] \<rparr>)),
              lastSyncBegan := Some 7001 \<rparr>,
           m_content = Some (ContentObject (empty_content
              \<lparr> appData := Some [''org.standardnotes.sn'' \<mapsto> [''pinned'' \<mapsto> JBool True]] \<rparr>)) \<rparr>"
    by (simp add: ItemMutator_new_def Copy_def sample_item_def sample_payload_def
        setAppDataItem_def setDomainDataKey_def set_lastSyncBegan_def CopyPayload_def
        DefaultAppDomain_def empty_content_def Let_def)
  from getResult_dirty [OF _ run, of 8000 8001] c run
  show ?thesis by auto
qed

definition contentless_item :: SNItem where
  "contentless_item = \<lparr> payload = sample_payload \<lparr> content := None \<rparr>, isSingleton = False \<rparr>"

text \<open>
  C7 (as stated): for every item, \<open>getResult\<close> returns a payload. For an item whose
  payload has no content and is neither deleted nor errored, \<open>getResult\<close> reaches
  \<open>this.content!.appData\<close> through \<open>setAppDataItem\<close> and throws a TypeError.
\<close>

theorem getResult_without_content_counterexample:
  "apply_mutations [] (ItemMutator_new contentless_item UserInteraction) =
     Inr (ItemMutator_new contentless_item UserInteraction) \<and>
   getResult 8000 8001 (ItemMutator_new contentless_item UserInteraction) = Inl TypeError"
  by (simp add: getResult_def ItemMutator_new_def contentless_item_def sample_payload_def
      Copy_def setAppDataItem_def setDomainDataKey_def)

end
